theory Spec2Isabelle
  imports Main
begin

section \<open>Data model (screen.go)\<close>

text \<open>
  A rune is a Unicode code point; the value 0 is the continuation sentinel and 32 the
  space. Go \<^verbatim>\<open>int\<close> values (coordinates, counts, widths, mode numbers) are
  \<^typ>\<open>int\<close>.

  A Go \<^verbatim>\<open>int\<close> has 64 bits (on a 64-bit platform) and its arithmetic wraps around.
  The coordinates, the sizes of the grid and the lengths of the history are bounded
  by what is allocated, so sums and differences among them stay far inside the range
  and are written as they stand. Where a method adds or subtracts an argument of its
  caller (the counts of the cursor moves, the line and column of the absolute moves,
  the line count of \<^verbatim>\<open>ScrollDown\<close>) the result is wrapped to 64 bits, as in Go:
  \<open>wrap64\<close> maps an integer to the value of the same residue modulo \<open>2 ^ 64\<close> in the
  range from \<open>- (2 ^ 63)\<close> to \<open>2 ^ 63 - 1\<close>.
\<close>

type_synonym rune = int

definition wrap64 :: "int \<Rightarrow> int" where
  "wrap64 v = (v + 2 ^ 63) mod 2 ^ 64 - 2 ^ 63"

text \<open>The values of a Go \<^verbatim>\<open>int\<close>.\<close>

definition int64 :: "int \<Rightarrow> bool" where
  "int64 v \<longleftrightarrow> - (2 ^ 63) \<le> v \<and> v < 2 ^ 63"

record Attributes =
  Fg :: string
  Bg :: string
  Bold :: bool
  Italics :: bool
  Underscore :: bool
  Strikethrough :: bool
  Reverse :: bool
  Blink :: bool

record Cursor =
  X :: int
  Y :: int
  Attrs :: Attributes
  Hidden :: bool

text \<open>The zero value \<^verbatim>\<open>Attributes{}\<close>, which \<^verbatim>\<open>make([]Attributes, n)\<close> fills a row with.\<close>

definition Attributes_zero :: Attributes where
  "Attributes_zero = \<lparr>Fg = [], Bg = [], Bold = False, Italics = False, Underscore = False,
     Strikethrough = False, Reverse = False, Blink = False\<rparr>"

definition DefaultAttributes :: Attributes where
  "DefaultAttributes = \<lparr>Fg = ''default'', Bg = ''default'', Bold = False, Italics = False,
     Underscore = False, Strikethrough = False, Reverse = False, Blink = False\<rparr>"

text \<open>\<^verbatim>\<open>Cursor{X: 0, Y: 0}\<close>: the attributes are the zero value.\<close>

definition Cursor_origin :: Cursor where
  "Cursor_origin = \<lparr>X = 0, Y = 0, Attrs = Attributes_zero, Hidden = False\<rparr>"

text \<open>\<^verbatim>\<open>Cursor{X: 0, Y: 0, Attrs: DefaultAttributes()}\<close>.\<close>

definition Cursor_default :: Cursor where
  "Cursor_default = \<lparr>X = 0, Y = 0, Attrs = DefaultAttributes, Hidden = False\<rparr>"

text \<open>
  The struct \<^verbatim>\<open>NativeScreen\<close>. The layers above embed it; the record extensions below
  follow the embedding, and a function on \<open>'a NativeScreen_scheme\<close> is a method that the
  embedding promotes to every layer. \<^verbatim>\<open>tabStops\<close> is a \<^verbatim>\<open>map[int]bool\<close>; a missing key
  reads as false.
\<close>

record NativeScreen =
  columns :: int
  lines :: int
  buffer :: "rune list list"
  attrs :: "Attributes list list"
  cursor :: Cursor
  saved :: "Cursor option"
  title :: string
  iconName :: string
  autoWrap :: bool
  newlineMode :: bool
  tabStops :: "int \<rightharpoonup> bool"

subsection \<open>Slices\<close>

text \<open>
  Go panics on an index out of range. The functions below are total: a write out of
  range changes nothing and a read out of range is unspecified. Every statement about
  them is made for states that satisfy the shape invariant \<open>wf_screen\<close> further down, where all
  the indices the code uses lie inside the grid.
\<close>

text \<open>\<^verbatim>\<open>g[y][x] = v\<close>\<close>

definition set_cell :: "'a list list \<Rightarrow> int \<Rightarrow> int \<Rightarrow> 'a \<Rightarrow> 'a list list" where
  "set_cell g y x v = g[nat y := (g ! nat y)[nat x := v]]"

text \<open>\<^verbatim>\<open>g[y][x]\<close>\<close>

definition get_cell :: "'a list list \<Rightarrow> int \<Rightarrow> int \<Rightarrow> 'a" where
  "get_cell g y x = g ! nat y ! nat x"

text \<open>
  The builtin \<^verbatim>\<open>copy(dst, src)\<close> copies \<open>min (len dst) (len src)\<close> elements and leaves
  the rest of \<open>dst\<close> as it is; the result is the new content of \<open>dst\<close>.
\<close>

definition copy_go :: "'a list \<Rightarrow> 'a list \<Rightarrow> 'a list" where
  "copy_go dst src = take (length dst) src @ drop (length src) dst"

text \<open>The slice expression \<^verbatim>\<open>xs[lo:hi]\<close>, and \<^verbatim>\<open>copy(xs[d:], src)\<close> as it leaves \<open>xs\<close>.\<close>

definition slice :: "'a list \<Rightarrow> int \<Rightarrow> int \<Rightarrow> 'a list" where
  "slice xs lo hi = take (nat hi - nat lo) (drop (nat lo) xs)"

definition copy_at :: "'a list \<Rightarrow> int \<Rightarrow> 'a list \<Rightarrow> 'a list" where
  "copy_at xs d src = take (nat d) xs @ copy_go (drop (nat d) xs) src"

text \<open>\<^verbatim>\<open>for x := x0; x < x1; x++ { g[y][x] = v }\<close>\<close>

definition fill_cells :: "'a list list \<Rightarrow> int \<Rightarrow> int \<Rightarrow> int \<Rightarrow> 'a \<Rightarrow> 'a list list" where
  "fill_cells g y x0 x1 v = fold (\<lambda>x h. set_cell h y (int x) v) [nat x0..<nat x1] g"

text \<open>\<^verbatim>\<open>for y := y0; y < y1; y++ { for x := 0; x < cols; x++ { g[y][x] = v } }\<close>\<close>

definition fill_rows :: "'a list list \<Rightarrow> int \<Rightarrow> int \<Rightarrow> int \<Rightarrow> 'a \<Rightarrow> 'a list list" where
  "fill_rows g y0 y1 cols v = fold (\<lambda>y h. fill_cells h (int y) 0 cols v) [nat y0..<nat y1] g"

text \<open>A fresh row: \<^verbatim>\<open>make([]rune, columns)\<close> filled with spaces, and \<^verbatim>\<open>make([]Attributes, columns)\<close>.\<close>

definition blank_chars :: "int \<Rightarrow> rune list" where
  "blank_chars cols = replicate (nat cols) 32"

definition zero_attrs :: "int \<Rightarrow> Attributes list" where
  "zero_attrs cols = replicate (nat cols) Attributes_zero"

text \<open>\<^verbatim>\<open>for i := 0; i < columns; i += 8 { tabStops[i] = true }\<close> on an empty map.\<close>

definition default_tabStops :: "int \<Rightarrow> (int \<rightharpoonup> bool)" where
  "default_tabStops cols = (\<lambda>i. if 0 \<le> i \<and> i < cols \<and> i mod 8 = 0 then Some True else None)"

definition tab_at :: "(int \<rightharpoonup> bool) \<Rightarrow> int \<Rightarrow> bool" where
  "tab_at m x = (case m x of Some b \<Rightarrow> b | None \<Rightarrow> False)"

section \<open>NativeScreen\<close>

definition NewNativeScreen :: "int \<Rightarrow> int \<Rightarrow> NativeScreen" where
  "NewNativeScreen cols lns =
     \<lparr>columns = cols, lines = lns,
      buffer = replicate (nat lns) (blank_chars cols),
      attrs = replicate (nat lns) (zero_attrs cols),
      cursor = Cursor_origin, saved = None, title = [], iconName = [],
      autoWrap = True, newlineMode = True, tabStops = default_tabStops cols\<rparr>"

abbreviation set_X :: "'a NativeScreen_scheme \<Rightarrow> int \<Rightarrow> 'a NativeScreen_scheme" where
  "set_X s v \<equiv> s\<lparr>cursor := (cursor s)\<lparr>X := v\<rparr>\<rparr>"

abbreviation set_Y :: "'a NativeScreen_scheme \<Rightarrow> int \<Rightarrow> 'a NativeScreen_scheme" where
  "set_Y s v \<equiv> s\<lparr>cursor := (cursor s)\<lparr>Y := v\<rparr>\<rparr>"

abbreviation cx :: "'a NativeScreen_scheme \<Rightarrow> int" where
  "cx s \<equiv> X (cursor s)"

abbreviation cy :: "'a NativeScreen_scheme \<Rightarrow> int" where
  "cy s \<equiv> Y (cursor s)"

text \<open>\<^verbatim>\<open>scrollUp\<close>: rows move up by one, the last row is a fresh blank row.\<close>

definition NativeScreen_scrollUp :: "'a NativeScreen_scheme \<Rightarrow> 'a NativeScreen_scheme" where
  "NativeScreen_scrollUp s =
     s\<lparr>buffer := (copy_at (buffer s) 0 (drop 1 (buffer s)))[nat (lines s - 1) := blank_chars (columns s)],
       attrs := (copy_at (attrs s) 0 (drop 1 (attrs s)))[nat (lines s - 1) := zero_attrs (columns s)]\<rparr>"

text \<open>\<^verbatim>\<open>scrollDown\<close>: \<^verbatim>\<open>copy(s.buffer[1:], s.buffer[0:s.lines-1])\<close>, then a fresh row 0.\<close>

definition NativeScreen_scrollDown :: "'a NativeScreen_scheme \<Rightarrow> 'a NativeScreen_scheme" where
  "NativeScreen_scrollDown s =
     s\<lparr>buffer := (copy_at (buffer s) 1 (slice (buffer s) 0 (lines s - 1)))[0 := blank_chars (columns s)],
       attrs := (copy_at (attrs s) 1 (slice (attrs s) 0 (lines s - 1)))[0 := zero_attrs (columns s)]\<rparr>"



definition NativeScreen_Backspace :: "'a NativeScreen_scheme \<Rightarrow> 'a NativeScreen_scheme" where
  "NativeScreen_Backspace s = (if cx s > 0 then set_X s (cx s - 1) else s)"

text \<open>
  \<^verbatim>\<open>Tab\<close>: the first tab stop among the columns \<open>X+1 .. columns-1\<close>, else the last column.
\<close>

definition NativeScreen_Tab :: "'a NativeScreen_scheme \<Rightarrow> 'a NativeScreen_scheme" where
  "NativeScreen_Tab s =
     (case filter (\<lambda>x. tab_at (tabStops s) x) [cx s + 1 .. columns s - 1] of
        x # _ \<Rightarrow> set_X s x
      | [] \<Rightarrow> set_X s (columns s - 1))"

definition NativeScreen_Linefeed :: "'a NativeScreen_scheme \<Rightarrow> 'a NativeScreen_scheme" where
  "NativeScreen_Linefeed s =
     (let s1 = set_Y s (cy s + 1);
          s2 = (if cy s1 \<ge> lines s1 then
                  (let s3 = NativeScreen_scrollUp s1 in set_Y s3 (lines s3 - 1))
                else s1)
      in if newlineMode s2 then set_X s2 0 else s2)"

definition NativeScreen_CarriageReturn :: "'a NativeScreen_scheme \<Rightarrow> 'a NativeScreen_scheme" where
  "NativeScreen_CarriageReturn s = set_X s 0"

text \<open>
  The relative moves: \<^verbatim>\<open>s.cursor.Y -= count\<close>, \<^verbatim>\<open>s.cursor.Y += count\<close> and the like, in
  64-bit arithmetic, followed by a clamp on one side only.
\<close>

definition NativeScreen_CursorUp :: "'a NativeScreen_scheme \<Rightarrow> int \<Rightarrow> 'a NativeScreen_scheme" where
  "NativeScreen_CursorUp s count =
     (let s1 = set_Y s (wrap64 (cy s - count)) in if cy s1 < 0 then set_Y s1 0 else s1)"

definition NativeScreen_CursorDown :: "'a NativeScreen_scheme \<Rightarrow> int \<Rightarrow> 'a NativeScreen_scheme" where
  "NativeScreen_CursorDown s count =
     (let s1 = set_Y s (wrap64 (cy s + count)) in if cy s1 \<ge> lines s1 then set_Y s1 (lines s1 - 1) else s1)"

definition NativeScreen_CursorForward :: "'a NativeScreen_scheme \<Rightarrow> int \<Rightarrow> 'a NativeScreen_scheme" where
  "NativeScreen_CursorForward s count =
     (let s1 = set_X s (wrap64 (cx s + count)) in if cx s1 \<ge> columns s1 then set_X s1 (columns s1 - 1) else s1)"

definition NativeScreen_CursorBack :: "'a NativeScreen_scheme \<Rightarrow> int \<Rightarrow> 'a NativeScreen_scheme" where
  "NativeScreen_CursorBack s count =
     (let s1 = set_X s (wrap64 (cx s - count)) in if cx s1 < 0 then set_X s1 0 else s1)"

definition NativeScreen_CursorUp1 :: "'a NativeScreen_scheme \<Rightarrow> int \<Rightarrow> 'a NativeScreen_scheme" where
  "NativeScreen_CursorUp1 s count = set_X (NativeScreen_CursorUp s count) 0"

definition NativeScreen_CursorDown1 :: "'a NativeScreen_scheme \<Rightarrow> int \<Rightarrow> 'a NativeScreen_scheme" where
  "NativeScreen_CursorDown1 s count = set_X (NativeScreen_CursorDown s count) 0"

text \<open>
  The absolute moves: \<^verbatim>\<open>line - 1\<close> and \<^verbatim>\<open>column - 1\<close> in 64-bit arithmetic, clamped
  on both sides.
\<close>

definition clamp_index :: "int \<Rightarrow> int \<Rightarrow> int" where
  "clamp_index v n = (if v < 0 then 0 else if v \<ge> n then n - 1 else v)"

definition NativeScreen_CursorPosition :: "'a NativeScreen_scheme \<Rightarrow> int \<Rightarrow> int \<Rightarrow> 'a NativeScreen_scheme" where
  "NativeScreen_CursorPosition s line column =
     set_X (set_Y s (clamp_index (wrap64 (line - 1)) (lines s))) (clamp_index (wrap64 (column - 1)) (columns s))"

definition NativeScreen_CursorToColumn :: "'a NativeScreen_scheme \<Rightarrow> int \<Rightarrow> 'a NativeScreen_scheme" where
  "NativeScreen_CursorToColumn s column = set_X s (clamp_index (wrap64 (column - 1)) (columns s))"

definition NativeScreen_CursorToLine :: "'a NativeScreen_scheme \<Rightarrow> int \<Rightarrow> 'a NativeScreen_scheme" where
  "NativeScreen_CursorToLine s line = set_Y s (clamp_index (wrap64 (line - 1)) (lines s))"

definition NativeScreen_Reset :: "'a NativeScreen_scheme \<Rightarrow> 'a NativeScreen_scheme" where
  "NativeScreen_Reset s =
     s\<lparr>buffer := fill_rows (buffer s) 0 (lines s) (columns s) 32,
       attrs := fill_rows (attrs s) 0 (lines s) (columns s) Attributes_zero,
       cursor := Cursor_origin, saved := None,
       autoWrap := True, newlineMode := True,
       tabStops := default_tabStops (columns s)\<rparr>"

definition NativeScreen_Index :: "'a NativeScreen_scheme \<Rightarrow> 'a NativeScreen_scheme" where
  "NativeScreen_Index s =
     (let s1 = set_Y s (cy s + 1) in
      if cy s1 \<ge> lines s1 then
        (let s3 = NativeScreen_scrollUp s1 in set_Y s3 (lines s3 - 1))
      else s1)"

definition NativeScreen_ReverseIndex :: "'a NativeScreen_scheme \<Rightarrow> 'a NativeScreen_scheme" where
  "NativeScreen_ReverseIndex s =
     (let s1 = set_Y s (cy s - 1) in
      if cy s1 < 0 then (let s3 = NativeScreen_scrollDown s1 in set_Y s3 0) else s1)"

definition NativeScreen_SetTabStop :: "'a NativeScreen_scheme \<Rightarrow> 'a NativeScreen_scheme" where
  "NativeScreen_SetTabStop s = s\<lparr>tabStops := (tabStops s)(cx s \<mapsto> True)\<rparr>"

definition NativeScreen_ClearTabStop :: "'a NativeScreen_scheme \<Rightarrow> int \<Rightarrow> 'a NativeScreen_scheme" where
  "NativeScreen_ClearTabStop s how =
     (if how = 0 then s\<lparr>tabStops := (tabStops s)(cx s := None)\<rparr>
      else if how = 3 then s\<lparr>tabStops := Map.empty\<rparr>
      else s)"

definition NativeScreen_SaveCursor :: "'a NativeScreen_scheme \<Rightarrow> 'a NativeScreen_scheme" where
  "NativeScreen_SaveCursor s = s\<lparr>saved := Some (cursor s)\<rparr>"

definition NativeScreen_RestoreCursor :: "'a NativeScreen_scheme \<Rightarrow> 'a NativeScreen_scheme" where
  "NativeScreen_RestoreCursor s = (case saved s of Some c \<Rightarrow> s\<lparr>cursor := c\<rparr> | None \<Rightarrow> s)"

text \<open>\<^verbatim>\<open>color256ToString\<close> is \<^verbatim>\<open>fmt.Sprintf("color%d", n)\<close>.\<close>

fun decimal :: "nat \<Rightarrow> string" where
  "decimal n = (if n < 10 then [''0123456789'' ! n] else decimal (n div 10) @ [''0123456789'' ! (n mod 10)])"

definition color256ToString :: "int \<Rightarrow> string" where
  "color256ToString n = ''color'' @ (if n < 0 then CHR ''-'' # decimal (nat (- n)) else decimal (nat n))"

text \<open>The cases of the \<^verbatim>\<open>switch\<close> of \<^verbatim>\<open>SelectGraphicRendition\<close> that read one parameter.\<close>

definition sgr_code :: "int \<Rightarrow> Attributes \<Rightarrow> Attributes" where
  "sgr_code p a =
     (if p = 0 then DefaultAttributes
      else if p = 1 then a\<lparr>Bold := True\<rparr>
      else if p = 3 then a\<lparr>Italics := True\<rparr>
      else if p = 4 then a\<lparr>Underscore := True\<rparr>
      else if p = 5 then a\<lparr>Blink := True\<rparr>
      else if p = 7 then a\<lparr>Reverse := True\<rparr>
      else if p = 9 then a\<lparr>Strikethrough := True\<rparr>
      else if p = 22 then a\<lparr>Bold := False\<rparr>
      else if p = 23 then a\<lparr>Italics := False\<rparr>
      else if p = 24 then a\<lparr>Underscore := False\<rparr>
      else if p = 25 then a\<lparr>Blink := False\<rparr>
      else if p = 27 then a\<lparr>Reverse := False\<rparr>
      else if p = 29 then a\<lparr>Strikethrough := False\<rparr>
      else if p = 30 then a\<lparr>Fg := ''black''\<rparr>
      else if p = 31 then a\<lparr>Fg := ''red''\<rparr>
      else if p = 32 then a\<lparr>Fg := ''green''\<rparr>
      else if p = 33 then a\<lparr>Fg := ''brown''\<rparr>
      else if p = 34 then a\<lparr>Fg := ''blue''\<rparr>
      else if p = 35 then a\<lparr>Fg := ''magenta''\<rparr>
      else if p = 36 then a\<lparr>Fg := ''cyan''\<rparr>
      else if p = 37 then a\<lparr>Fg := ''white''\<rparr>
      else if p = 39 then a\<lparr>Fg := ''default''\<rparr>
      else if p = 40 then a\<lparr>Bg := ''black''\<rparr>
      else if p = 41 then a\<lparr>Bg := ''red''\<rparr>
      else if p = 42 then a\<lparr>Bg := ''green''\<rparr>
      else if p = 43 then a\<lparr>Bg := ''brown''\<rparr>
      else if p = 44 then a\<lparr>Bg := ''blue''\<rparr>
      else if p = 45 then a\<lparr>Bg := ''magenta''\<rparr>
      else if p = 46 then a\<lparr>Bg := ''cyan''\<rparr>
      else if p = 47 then a\<lparr>Bg := ''white''\<rparr>
      else if p = 49 then a\<lparr>Bg := ''default''\<rparr>
      else a)"

text \<open>
  The loop over \<^verbatim>\<open>params\<close>. At 38 or 48 the test \<^verbatim>\<open>i+2 < len(params) && params[i+1] == 5\<close>
  asks for two more parameters, the first of them 5, and then skips both.
\<close>

fun sgr_loop :: "int list \<Rightarrow> Attributes \<Rightarrow> Attributes" where
  "sgr_loop [] a = a"
| "sgr_loop (p # q # n # rest) a =
     (if (p = 38 \<or> p = 48) \<and> q = 5 then
        sgr_loop rest (if p = 38 then a\<lparr>Fg := color256ToString n\<rparr> else a\<lparr>Bg := color256ToString n\<rparr>)
      else sgr_loop (q # n # rest) (sgr_code p a))"
| "sgr_loop (p # rest) a = sgr_loop rest (sgr_code p a)"

definition NativeScreen_SelectGraphicRendition ::
  "'a NativeScreen_scheme \<Rightarrow> int list \<Rightarrow> 'a NativeScreen_scheme" where
  "NativeScreen_SelectGraphicRendition s params =
     (if length params = 0 \<or> (length params = 1 \<and> params ! 0 = 0)
      then s\<lparr>cursor := (cursor s)\<lparr>Attrs := DefaultAttributes\<rparr>\<rparr>
      else s\<lparr>cursor := (cursor s)\<lparr>Attrs := sgr_loop params (Attrs (cursor s))\<rparr>\<rparr>)"

subsection \<open>Line and character operations\<close>

text \<open>
  The loops \<^verbatim>\<open>for i := 0; i < count && cond; i++\<close> below have a condition that their
  body does not change, so they run the body \<open>count\<close> times (no times for a count
  below 1) when the condition holds, and not at all otherwise.
\<close>

definition InsertLines_step :: "'a NativeScreen_scheme \<Rightarrow> 'a NativeScreen_scheme" where
  "InsertLines_step s =
     s\<lparr>buffer := (copy_at (buffer s) (cy s + 1) (slice (buffer s) (cy s) (lines s - 1)))
                   [nat (cy s) := blank_chars (columns s)],
       attrs := (copy_at (attrs s) (cy s + 1) (slice (attrs s) (cy s) (lines s - 1)))
                   [nat (cy s) := zero_attrs (columns s)]\<rparr>"

definition NativeScreen_InsertLines :: "'a NativeScreen_scheme \<Rightarrow> int \<Rightarrow> 'a NativeScreen_scheme" where
  "NativeScreen_InsertLines s count =
     (if cy s < lines s then (InsertLines_step ^^ nat count) s else s)"

definition DeleteLines_step :: "'a NativeScreen_scheme \<Rightarrow> 'a NativeScreen_scheme" where
  "DeleteLines_step s =
     (let s1 = (if cy s < lines s - 1 then
                  s\<lparr>buffer := copy_at (buffer s) (cy s) (drop (nat (cy s + 1)) (buffer s)),
                    attrs := copy_at (attrs s) (cy s) (drop (nat (cy s + 1)) (attrs s))\<rparr>
                else s)
      in s1\<lparr>buffer := (buffer s1)[nat (lines s1 - 1) := blank_chars (columns s1)],
            attrs := (attrs s1)[nat (lines s1 - 1) := zero_attrs (columns s1)]\<rparr>)"

definition NativeScreen_DeleteLines :: "'a NativeScreen_scheme \<Rightarrow> int \<Rightarrow> 'a NativeScreen_scheme" where
  "NativeScreen_DeleteLines s count =
     (if cy s < lines s then (DeleteLines_step ^^ nat count) s else s)"

text \<open>\<^verbatim>\<open>line := s.buffer[s.cursor.Y]\<close> aliases the row, so the writes land in the buffer.\<close>

definition InsertCharacters_step :: "int \<Rightarrow> int \<Rightarrow> rune list \<Rightarrow> rune list" where
  "InsertCharacters_step x cols line = (copy_at line (x + 1) (slice line x (cols - 1)))[nat x := 32]"

definition NativeScreen_InsertCharacters :: "'a NativeScreen_scheme \<Rightarrow> int \<Rightarrow> 'a NativeScreen_scheme" where
  "NativeScreen_InsertCharacters s count =
     (if cx s < columns s then
        s\<lparr>buffer := (buffer s)[nat (cy s) :=
             (InsertCharacters_step (cx s) (columns s) ^^ nat count) (buffer s ! nat (cy s))]\<rparr>
      else s)"

definition DeleteCharacters_step :: "int \<Rightarrow> int \<Rightarrow> rune list \<Rightarrow> rune list" where
  "DeleteCharacters_step x cols line =
     (if x < cols - 1 then copy_at line x (drop (nat (x + 1)) line) else line)[nat (cols - 1) := 32]"

definition NativeScreen_DeleteCharacters :: "'a NativeScreen_scheme \<Rightarrow> int \<Rightarrow> 'a NativeScreen_scheme" where
  "NativeScreen_DeleteCharacters s count =
     (if cx s < columns s then
        s\<lparr>buffer := (buffer s)[nat (cy s) :=
             (DeleteCharacters_step (cx s) (columns s) ^^ nat count) (buffer s ! nat (cy s))]\<rparr>
      else s)"

text \<open>\<^verbatim>\<open>for i := 0; i < count && s.cursor.X+i < s.columns; i++ { s.buffer[Y][X+i] = ' ' }\<close>\<close>

definition NativeScreen_EraseCharacters :: "'a NativeScreen_scheme \<Rightarrow> int \<Rightarrow> 'a NativeScreen_scheme" where
  "NativeScreen_EraseCharacters s count =
     s\<lparr>buffer := fill_cells (buffer s) (cy s) (cx s) (min (cx s + count) (columns s)) 32\<rparr>"

text \<open>The erasures of the base layer write spaces into \<^verbatim>\<open>buffer\<close> and leave \<^verbatim>\<open>attrs\<close> alone.\<close>

definition NativeScreen_EraseInLine :: "'a NativeScreen_scheme \<Rightarrow> int \<Rightarrow> bool \<Rightarrow> 'a NativeScreen_scheme" where
  "NativeScreen_EraseInLine s how private =
     (if how = 0 then s\<lparr>buffer := fill_cells (buffer s) (cy s) (cx s) (columns s) 32\<rparr>
      else if how = 1 then s\<lparr>buffer := fill_cells (buffer s) (cy s) 0 (min (cx s + 1) (columns s)) 32\<rparr>
      else if how = 2 then s\<lparr>buffer := fill_cells (buffer s) (cy s) 0 (columns s) 32\<rparr>
      else s)"

definition NativeScreen_EraseInDisplay :: "'a NativeScreen_scheme \<Rightarrow> int \<Rightarrow> 'a NativeScreen_scheme" where
  "NativeScreen_EraseInDisplay s how =
     (if how = 0 then
        (let s1 = NativeScreen_EraseInLine s 0 False
         in s1\<lparr>buffer := fill_rows (buffer s1) (cy s1 + 1) (lines s1) (columns s1) 32\<rparr>)
      else if how = 1 then
        (let s1 = NativeScreen_EraseInLine s 1 False
         in s1\<lparr>buffer := fill_rows (buffer s1) 0 (cy s1) (columns s1) 32\<rparr>)
      else if how = 2 \<or> how = 3 then
        s\<lparr>buffer := fill_rows (buffer s) 0 (lines s) (columns s) 32\<rparr>
      else s)"

definition NativeScreen_SetMode_step :: "bool \<Rightarrow> 'a NativeScreen_scheme \<Rightarrow> int \<Rightarrow> 'a NativeScreen_scheme" where
  "NativeScreen_SetMode_step private s mode =
     (if private then (if mode = 7 then s\<lparr>autoWrap := True\<rparr> else s)
      else (if mode = 20 then s\<lparr>newlineMode := True\<rparr> else s))"

definition NativeScreen_SetMode :: "'a NativeScreen_scheme \<Rightarrow> int list \<Rightarrow> bool \<Rightarrow> 'a NativeScreen_scheme" where
  "NativeScreen_SetMode s modes private = foldl (NativeScreen_SetMode_step private) s modes"

definition NativeScreen_ResetMode_step :: "bool \<Rightarrow> 'a NativeScreen_scheme \<Rightarrow> int \<Rightarrow> 'a NativeScreen_scheme" where
  "NativeScreen_ResetMode_step private s mode =
     (if private then (if mode = 7 then s\<lparr>autoWrap := False\<rparr> else s)
      else (if mode = 20 then s\<lparr>newlineMode := False\<rparr> else s))"

definition NativeScreen_ResetMode :: "'a NativeScreen_scheme \<Rightarrow> int list \<Rightarrow> bool \<Rightarrow> 'a NativeScreen_scheme" where
  "NativeScreen_ResetMode s modes private = foldl (NativeScreen_ResetMode_step private) s modes"

definition NativeScreen_SetTitle :: "'a NativeScreen_scheme \<Rightarrow> string \<Rightarrow> 'a NativeScreen_scheme" where
  "NativeScreen_SetTitle s t = s\<lparr>title := t\<rparr>"

definition NativeScreen_SetIconName :: "'a NativeScreen_scheme \<Rightarrow> string \<Rightarrow> 'a NativeScreen_scheme" where
  "NativeScreen_SetIconName s n = s\<lparr>iconName := n\<rparr>"

text \<open>\<^verbatim>\<open>AlignmentDisplay\<close> fills the buffer with the letter E (code point 69).\<close>

definition NativeScreen_AlignmentDisplay :: "'a NativeScreen_scheme \<Rightarrow> 'a NativeScreen_scheme" where
  "NativeScreen_AlignmentDisplay s = s\<lparr>buffer := fill_rows (buffer s) 0 (lines s) (columns s) 69\<rparr>"

definition GetCursor :: "'a NativeScreen_scheme \<Rightarrow> int \<times> int" where
  "GetCursor s = (cx s, cy s)"

section \<open>HistoryScreen (history_screen.go)\<close>

text \<open>
  A \<^verbatim>\<open>HistoryLine\<close> holds copies of one row. The \<^verbatim>\<open>container/list\<close> history is a list
  with the front first: \<^verbatim>\<open>PushBack\<close> appends, \<^verbatim>\<open>Remove(Front())\<close> drops the head and
  \<^verbatim>\<open>Init\<close> empties it. A nil slice (\<^verbatim>\<open>savedBuffer\<close>, \<^verbatim>\<open>savedAttrs\<close>) is \<open>None\<close>.
\<close>

record HistoryLine =
  Chars :: "rune list"
  LineAttrs :: "Attributes list"

record HistoryScreen = NativeScreen +
  history :: "HistoryLine list"
  maxHistory :: int
  historyPos :: int
  savedBuffer :: "rune list list option"
  savedAttrs :: "Attributes list list option"
  savedCursor :: Cursor
  viewingHistory :: bool

definition NewHistoryScreen :: "int \<Rightarrow> int \<Rightarrow> int \<Rightarrow> HistoryScreen" where
  "NewHistoryScreen cols lns maxH =
     NativeScreen.extend (NewNativeScreen cols lns)
       (HistoryScreen.fields [] maxH 0 None None Cursor_origin False)"

text \<open>\<^verbatim>\<open>scrollUpInternal\<close> repeats the body of \<^verbatim>\<open>scrollUp\<close>.\<close>

definition scrollUpInternal :: "'a HistoryScreen_scheme \<Rightarrow> 'a HistoryScreen_scheme" where
  "scrollUpInternal h =
     h\<lparr>buffer := (copy_at (buffer h) 0 (drop 1 (buffer h)))[nat (lines h - 1) := blank_chars (columns h)],
       attrs := (copy_at (attrs h) 0 (drop 1 (attrs h)))[nat (lines h - 1) := zero_attrs (columns h)]\<rparr>"

text \<open>
  \<^verbatim>\<open>addToHistory\<close>: the line is copied into fresh slices of \<open>columns\<close> elements, pushed
  to the back, and the front is removed when the list is longer than \<open>maxHistory\<close>.
\<close>

definition trim_history :: "int \<Rightarrow> HistoryLine list \<Rightarrow> HistoryLine list" where
  "trim_history maxH hs = (if int (length hs) > maxH then tl hs else hs)"

definition addToHistory :: "'a HistoryScreen_scheme \<Rightarrow> int \<Rightarrow> 'a HistoryScreen_scheme" where
  "addToHistory h lineNum =
     (if lineNum \<ge> 0 \<and> lineNum < lines h then
        (let line = \<lparr>Chars = copy_go (replicate (nat (columns h)) 0) (buffer h ! nat lineNum),
                     LineAttrs = copy_go (zero_attrs (columns h)) (attrs h ! nat lineNum)\<rparr>
         in h\<lparr>history := trim_history (maxHistory h) (history h @ [line])\<rparr>)
      else h)"

definition HistoryScreen_Linefeed :: "'a HistoryScreen_scheme \<Rightarrow> 'a HistoryScreen_scheme" where
  "HistoryScreen_Linefeed h =
     (let h1 = (if cy h = lines h - 1 then scrollUpInternal (addToHistory h 0)
                else set_Y h (cy h + 1))
      in if newlineMode h1 then set_X h1 0 else h1)"

definition HistoryScreen_Index :: "'a HistoryScreen_scheme \<Rightarrow> 'a HistoryScreen_scheme" where
  "HistoryScreen_Index h =
     (if cy h = lines h - 1 then scrollUpInternal (addToHistory h 0)
      else set_Y h (cy h + 1))"

definition saveCurrentScreen :: "'a HistoryScreen_scheme \<Rightarrow> 'a HistoryScreen_scheme" where
  "saveCurrentScreen h =
     h\<lparr>savedBuffer := Some (map (\<lambda>i. copy_go (replicate (nat (columns h)) 0) (buffer h ! i)) [0..<nat (lines h)]),
       savedAttrs := Some (map (\<lambda>i. copy_go (zero_attrs (columns h)) (attrs h ! i)) [0..<nat (lines h)]),
       savedCursor := cursor h\<rparr>"

definition slice_of :: "'a list option \<Rightarrow> 'a list" where
  "slice_of v = (case v of None \<Rightarrow> [] | Some xs \<Rightarrow> xs)"

definition restoreCurrentScreen :: "'a HistoryScreen_scheme \<Rightarrow> 'a HistoryScreen_scheme" where
  "restoreCurrentScreen h =
     (case savedBuffer h of
        None \<Rightarrow> h
      | Some b \<Rightarrow>
          h\<lparr>buffer := b, attrs := slice_of (savedAttrs h),
            cursor := (savedCursor h)\<lparr>Hidden := False\<rparr>,
            savedBuffer := None, savedAttrs := None\<rparr>)"

text \<open>
  One row of the history view: \<^verbatim>\<open>copy(h.buffer[lineIdx], chars)\<close>,
  \<^verbatim>\<open>copy(h.attrs[lineIdx], attrs)\<close>, \<^verbatim>\<open>lineIdx++\<close>, under the loop guard
  \<^verbatim>\<open>lineIdx < h.lines\<close>. Once the guard fails the loops of \<^verbatim>\<open>renderHistoryView\<close> end,
  and here the remaining steps change nothing.
\<close>

definition put_line ::
  "nat \<Rightarrow> rune list \<Rightarrow> Attributes list \<Rightarrow> nat \<times> rune list list \<times> Attributes list list
     \<Rightarrow> nat \<times> rune list list \<times> Attributes list list" where
  "put_line n cs as st =
     (case st of (idx, b, a) \<Rightarrow>
        if idx < n then (Suc idx, b[idx := copy_go (b ! idx) cs], a[idx := copy_go (a ! idx) as])
        else (idx, b, a))"

definition renderHistoryView :: "'a HistoryScreen_scheme \<Rightarrow> 'a HistoryScreen_scheme" where
  "renderHistoryView h =
     (let b0 = fill_rows (buffer h) 0 (lines h) (columns h) 32;
          a0 = fill_rows (attrs h) 0 (lines h) (columns h) Attributes_zero;
          totalLines = int (length (history h)) + lines h;
          startLine0 = totalLines - historyPos h - lines h;
          startLine = (if startLine0 < 0 then 0 else startLine0);
          elems = drop (nat startLine) (history h);
          st1 = fold (\<lambda>l. put_line (nat (lines h)) (Chars l) (LineAttrs l)) elems (0, b0, a0);
          st2 = (if int (fst st1) < lines h \<and> savedBuffer h \<noteq> None then
                   (let savedStart = (if historyPos h \<le> lines h then lines h - historyPos h else 0)
                    in fold (\<lambda>i. put_line (nat (lines h)) (slice_of (savedBuffer h) ! i)
                                     (slice_of (savedAttrs h) ! i))
                         [nat savedStart..<nat (lines h)] st1)
                 else st1)
      in h\<lparr>buffer := fst (snd st2), attrs := snd (snd st2),
           cursor := (cursor h)\<lparr>Hidden := True\<rparr>\<rparr>)"

text \<open>
  \<^verbatim>\<open>ScrollUp\<close>: the count is cut down to \<^verbatim>\<open>maxScroll\<close> before it is added to
  \<^verbatim>\<open>historyPos\<close>. The code never leaves \<^verbatim>\<open>historyPos\<close> negative (\<^verbatim>\<open>ScrollDown\<close> sets a
  value that is not positive to 0), so neither the difference nor the sum overflows.
\<close>

definition HistoryScreen_ScrollUp :: "'a HistoryScreen_scheme \<Rightarrow> int \<Rightarrow> 'a HistoryScreen_scheme" where
  "HistoryScreen_ScrollUp h n =
     (let h1 = (if \<not> viewingHistory h then (saveCurrentScreen h)\<lparr>viewingHistory := True\<rparr> else h);
          maxScroll = int (length (history h1)) - historyPos h1;
          n1 = (if n > maxScroll then maxScroll else n)
      in if n1 \<le> 0 then h1
         else renderHistoryView (h1\<lparr>historyPos := historyPos h1 + n1\<rparr>))"

text \<open>\<^verbatim>\<open>ScrollDown\<close>: \<^verbatim>\<open>h.historyPos -= lines\<close> in 64-bit arithmetic.\<close>

definition HistoryScreen_ScrollDown :: "'a HistoryScreen_scheme \<Rightarrow> int \<Rightarrow> 'a HistoryScreen_scheme" where
  "HistoryScreen_ScrollDown h n =
     (if \<not> viewingHistory h then h
      else
        (let h1 = h\<lparr>historyPos := wrap64 (historyPos h - n)\<rparr>
         in if historyPos h1 \<le> 0 then
              (restoreCurrentScreen (h1\<lparr>historyPos := 0\<rparr>))\<lparr>viewingHistory := False\<rparr>
            else renderHistoryView h1))"

definition HistoryScreen_ScrollToBottom :: "'a HistoryScreen_scheme \<Rightarrow> 'a HistoryScreen_scheme" where
  "HistoryScreen_ScrollToBottom h =
     (if viewingHistory h then
        (restoreCurrentScreen (h\<lparr>historyPos := 0\<rparr>))\<lparr>viewingHistory := False\<rparr>
      else h)"



definition HistoryScreen_EraseInDisplay :: "'a HistoryScreen_scheme \<Rightarrow> int \<Rightarrow> 'a HistoryScreen_scheme" where
  "HistoryScreen_EraseInDisplay h how =
     (let h1 = (if viewingHistory h then HistoryScreen_ScrollToBottom h else h);
          h2 = NativeScreen_EraseInDisplay h1 how
      in if how = 2 \<or> how = 3 then h2\<lparr>history := [], historyPos := 0\<rparr> else h2)"

definition HistoryScreen_Reset :: "'a HistoryScreen_scheme \<Rightarrow> 'a HistoryScreen_scheme" where
  "HistoryScreen_Reset h =
     (NativeScreen_Reset h)\<lparr>history := [], historyPos := 0, viewingHistory := False,
        savedBuffer := None, savedAttrs := None\<rparr>"

definition GetHistorySize :: "'a HistoryScreen_scheme \<Rightarrow> int" where
  "GetHistorySize h = int (length (history h))"

definition IsViewingHistory :: "'a HistoryScreen_scheme \<Rightarrow> bool" where
  "IsViewingHistory h = viewingHistory h"

section \<open>AlternateScreen (alternative_screen.go)\<close>

text \<open>
  The struct embeds \<^verbatim>\<open>*HistoryScreen\<close> and keeps a slot for the dormant half. A slot
  that was never written (\<^verbatim>\<open>mainBuffer\<close>, \<^verbatim>\<open>mainAttrs\<close>, \<^verbatim>\<open>mainTabStops\<close>,
  \<^verbatim>\<open>mainHistory\<close> before the first switch) is nil: the empty list, the empty map.

  Slices and maps are references in Go. \<^verbatim>\<open>switchToAlternate\<close> stores the reference to
  the main rows in \<^verbatim>\<open>mainBuffer\<close> and makes \<^verbatim>\<open>buffer\<close> refer to the rows of
  \<^verbatim>\<open>altBuffer\<close>, which \<^verbatim>\<open>NewAlternateScreen\<close> allocated on their own; every row that an
  operation installs later is freshly made, and history lines and the saved screen
  are copies. So the rows of the two halves are never shared, a write through
  \<^verbatim>\<open>buffer\<close> reaches the active half only, and the slot of the active half is not read
  before the next switch overwrites it. The model therefore keeps values in the slots.
\<close>

record AlternateScreen = HistoryScreen +
  mainBuffer :: "rune list list"
  mainAttrs :: "Attributes list list"
  mainCursor :: Cursor
  mainTabStops :: "int \<rightharpoonup> bool"
  mainHistory :: "HistoryLine list"
  altBuffer :: "rune list list"
  altAttrs :: "Attributes list list"
  altCursor :: Cursor
  altTabStops :: "int \<rightharpoonup> bool"
  usingAlternate :: bool

definition NewAlternateScreen :: "int \<Rightarrow> int \<Rightarrow> int \<Rightarrow> AlternateScreen" where
  "NewAlternateScreen cols lns maxH =
     HistoryScreen.extend (NewHistoryScreen cols lns maxH)
       (AlternateScreen.fields [] [] Cursor_origin Map.empty []
          (replicate (nat lns) (blank_chars cols)) (replicate (nat lns) (zero_attrs cols))
          Cursor_origin (default_tabStops cols) False)"

definition AlternateScreen_switchToAlternate :: "'a AlternateScreen_scheme \<Rightarrow> 'a AlternateScreen_scheme" where
  "AlternateScreen_switchToAlternate a =
     (let a1 = a\<lparr>mainBuffer := buffer a, mainAttrs := attrs a, mainCursor := cursor a,
                  mainTabStops := tabStops a, mainHistory := history a\<rparr>;
          a2 = a1\<lparr>altBuffer := fill_rows (altBuffer a1) 0 (lines a1) (columns a1) 32,
                   altAttrs := fill_rows (altAttrs a1) 0 (lines a1) (columns a1) DefaultAttributes\<rparr>;
          a3 = a2\<lparr>buffer := altBuffer a2, attrs := altAttrs a2, cursor := Cursor_default,
                   tabStops := altTabStops a2, history := [], usingAlternate := True\<rparr>
      in if viewingHistory a3 then a3\<lparr>viewingHistory := False, historyPos := 0\<rparr> else a3)"

definition AlternateScreen_switchToMain :: "'a AlternateScreen_scheme \<Rightarrow> 'a AlternateScreen_scheme" where
  "AlternateScreen_switchToMain a =
     (if \<not> usingAlternate a then a
      else a\<lparr>altBuffer := buffer a, altAttrs := attrs a, altCursor := cursor a,
             altTabStops := tabStops a,
             buffer := mainBuffer a, attrs := mainAttrs a, cursor := mainCursor a,
             tabStops := mainTabStops a, history := mainHistory a,
             usingAlternate := False\<rparr>)"

text \<open>
  \<^verbatim>\<open>SetMode\<close> and \<^verbatim>\<open>ResetMode\<close> call \<^verbatim>\<open>a.switchToAlternate()\<close> and
  \<^verbatim>\<open>a.switchToMain()\<close> on the receiver of type \<^verbatim>\<open>*AlternateScreen\<close>. Go binds the call
  to the method of that type, also when the screen is embedded in a
  \<^verbatim>\<open>WideCharScreen\<close>. Afterwards they call the promoted \<^verbatim>\<open>NativeScreen\<close> methods.
\<close>

definition AlternateScreen_SetMode_step :: "'a AlternateScreen_scheme \<Rightarrow> int \<Rightarrow> 'a AlternateScreen_scheme" where
  "AlternateScreen_SetMode_step a mode =
     (if mode = 1049 \<or> mode = 1047 \<or> mode = 47 then
        (if \<not> usingAlternate a then AlternateScreen_switchToAlternate a else a)
      else if mode = 1048 then
        (if usingAlternate a then a\<lparr>altCursor := cursor a\<rparr> else a\<lparr>mainCursor := cursor a\<rparr>)
      else a)"

definition AlternateScreen_SetMode :: "'a AlternateScreen_scheme \<Rightarrow> int list \<Rightarrow> bool \<Rightarrow> 'a AlternateScreen_scheme" where
  "AlternateScreen_SetMode a modes private =
     NativeScreen_SetMode (if private then foldl AlternateScreen_SetMode_step a modes else a) modes private"

definition AlternateScreen_ResetMode_step :: "'a AlternateScreen_scheme \<Rightarrow> int \<Rightarrow> 'a AlternateScreen_scheme" where
  "AlternateScreen_ResetMode_step a mode =
     (if mode = 1049 \<or> mode = 1047 \<or> mode = 47 then
        (if usingAlternate a then AlternateScreen_switchToMain a else a)
      else if mode = 1048 then
        (if usingAlternate a then a\<lparr>cursor := altCursor a\<rparr> else a\<lparr>cursor := mainCursor a\<rparr>)
      else a)"

definition AlternateScreen_ResetMode :: "'a AlternateScreen_scheme \<Rightarrow> int list \<Rightarrow> bool \<Rightarrow> 'a AlternateScreen_scheme" where
  "AlternateScreen_ResetMode a modes private =
     NativeScreen_ResetMode (if private then foldl AlternateScreen_ResetMode_step a modes else a) modes private"

definition scrollUpNoHistory :: "'a AlternateScreen_scheme \<Rightarrow> 'a AlternateScreen_scheme" where
  "scrollUpNoHistory a =
     a\<lparr>buffer := (copy_at (buffer a) 0 (drop 1 (buffer a)))[nat (lines a - 1) := blank_chars (columns a)],
       attrs := (copy_at (attrs a) 0 (drop 1 (attrs a)))[nat (lines a - 1) := zero_attrs (columns a)]\<rparr>"

definition AlternateScreen_Linefeed :: "'a AlternateScreen_scheme \<Rightarrow> 'a AlternateScreen_scheme" where
  "AlternateScreen_Linefeed a =
     (if usingAlternate a then
        (let a1 = (if cy a = lines a - 1 then scrollUpNoHistory a else set_Y a (cy a + 1))
         in if newlineMode a1 then set_X a1 0 else a1)
      else HistoryScreen_Linefeed a)"

definition AlternateScreen_Index :: "'a AlternateScreen_scheme \<Rightarrow> 'a AlternateScreen_scheme" where
  "AlternateScreen_Index a =
     (if usingAlternate a then
        (if cy a = lines a - 1 then scrollUpNoHistory a else set_Y a (cy a + 1))
      else HistoryScreen_Index a)"




definition AlternateScreen_Reset :: "'a AlternateScreen_scheme \<Rightarrow> 'a AlternateScreen_scheme" where
  "AlternateScreen_Reset a =
     (let a1 = (if usingAlternate a then AlternateScreen_switchToMain a else a);
          a2 = HistoryScreen_Reset a1
      in a2\<lparr>altBuffer := fill_rows (altBuffer a2) 0 (lines a2) (columns a2) 32,
            altAttrs := fill_rows (altAttrs a2) 0 (lines a2) (columns a2) DefaultAttributes,
            altCursor := Cursor_default,
            altTabStops := default_tabStops (columns a2)\<rparr>)"

definition IsUsingAlternate :: "'a AlternateScreen_scheme \<Rightarrow> bool" where
  "IsUsingAlternate a = usingAlternate a"

definition AlternateScreen_ScrollUp :: "'a AlternateScreen_scheme \<Rightarrow> int \<Rightarrow> 'a AlternateScreen_scheme" where
  "AlternateScreen_ScrollUp a n = (if \<not> usingAlternate a then HistoryScreen_ScrollUp a n else a)"

definition AlternateScreen_ScrollDown :: "'a AlternateScreen_scheme \<Rightarrow> int \<Rightarrow> 'a AlternateScreen_scheme" where
  "AlternateScreen_ScrollDown a n = (if \<not> usingAlternate a then HistoryScreen_ScrollDown a n else a)"

definition AlternateScreen_ScrollToBottom :: "'a AlternateScreen_scheme \<Rightarrow> 'a AlternateScreen_scheme" where
  "AlternateScreen_ScrollToBottom a = (if \<not> usingAlternate a then HistoryScreen_ScrollToBottom a else a)"

section \<open>WideCharScreen (wide_char_screen.go)\<close>

text \<open>
  The display width of a rune comes from \<^verbatim>\<open>runewidth.RuneWidth\<close> of the library
  go-runewidth, which is not part of the repository. It is a parameter \<open>rw\<close> of the
  functions that draw. Of the library only this is used: the width is 0, 1 or 2.
\<close>

text \<open>
  The struct has three width grids. \<^verbatim>\<open>cellWidths\<close> is the one every method reads and
  writes. \<^verbatim>\<open>altCellWidths\<close> is allocated by the constructor on its own.
  \<^verbatim>\<open>mainCellWidths\<close> is no grid of its own: the constructor ends with
  \<^verbatim>\<open>w.mainCellWidths = w.cellWidths\<close>, which makes it a second name of the slice
  \<^verbatim>\<open>cellWidths\<close>, and the only assignments to either name are in
  \<^verbatim>\<open>WideCharScreen.switchToAlternate\<close>, \<^verbatim>\<open>WideCharScreen.switchToMain\<close> and
  \<^verbatim>\<open>Resize\<close>. The first two are never called (see below) and \<^verbatim>\<open>Resize\<close> is not
  modelled, so \<^verbatim>\<open>mainCellWidths\<close> stays an alias of \<^verbatim>\<open>cellWidths\<close> and has no field
  of its own in the record.
\<close>

record WideCharScreen = AlternateScreen +
  cellWidths :: "int list list"
  altCellWidths :: "int list list"

definition ones_grid :: "int \<Rightarrow> int \<Rightarrow> int list list" where
  "ones_grid cols lns = replicate (nat lns) (replicate (nat cols) 1)"

definition NewWideCharScreen :: "int \<Rightarrow> int \<Rightarrow> int \<Rightarrow> WideCharScreen" where
  "NewWideCharScreen cols lns maxH =
     AlternateScreen.extend (NewAlternateScreen cols lns maxH)
       (WideCharScreen.fields (ones_grid cols lns) (ones_grid cols lns))"

text \<open>
  \<^verbatim>\<open>clearCellAt\<close> walks left from a continuation cell; it only recurses with \<open>x > 0\<close>.
\<close>

function clearCellAt :: "'a WideCharScreen_scheme \<Rightarrow> int \<Rightarrow> int \<Rightarrow> 'a WideCharScreen_scheme" where
  "clearCellAt w y x =
     (if y \<ge> lines w \<or> x \<ge> columns w then w
      else
        (let width = get_cell (cellWidths w) y x in
         if width = 0 \<and> x > 0 then clearCellAt w y (x - 1)
         else
           (let w1 = w\<lparr>buffer := set_cell (buffer w) y x 32,
                        attrs := set_cell (attrs w) y x DefaultAttributes,
                        cellWidths := set_cell (cellWidths w) y x 1\<rparr>
            in if width = 2 \<and> x + 1 < columns w1 then
                 w1\<lparr>buffer := set_cell (buffer w1) y (x + 1) 32,
                    attrs := set_cell (attrs w1) y (x + 1) DefaultAttributes,
                    cellWidths := set_cell (cellWidths w1) y (x + 1) 1\<rparr>
               else w1)))"
  by pat_completeness auto
termination
  by (relation "measure (\<lambda>(w, y, x). nat x)") auto

declare clearCellAt.simps [simp del]

text \<open>
  \<^verbatim>\<open>handleZeroWidth\<close> reads \<^verbatim>\<open>cellWidths\<close> and \<^verbatim>\<open>buffer\<close> near the cursor and writes
  nothing: both of its branches that would combine the mark are empty. The screen is
  unchanged.
\<close>

definition handleZeroWidth :: "'a WideCharScreen_scheme \<Rightarrow> rune \<Rightarrow> 'a WideCharScreen_scheme" where
  "handleZeroWidth w ch = w"

text \<open>
  \<^verbatim>\<open>drawChar\<close>. A character that does not fit returns early when autowrap is off.
  The scroll moves \<^verbatim>\<open>buffer\<close> and \<^verbatim>\<open>attrs\<close>; \<^verbatim>\<open>cellWidths\<close> is not scrolled.
\<close>

definition drawChar_place :: "'a WideCharScreen_scheme \<Rightarrow> rune \<Rightarrow> int \<Rightarrow> 'a WideCharScreen_scheme" where
  "drawChar_place w ch charWidth =
     (if cy w < lines w \<and> cx w < columns w then
        (let w1 = clearCellAt w (cy w) (cx w);
             w2 = w1\<lparr>buffer := set_cell (buffer w1) (cy w1) (cx w1) ch,
                      attrs := set_cell (attrs w1) (cy w1) (cx w1) (Attrs (cursor w1)),
                      cellWidths := set_cell (cellWidths w1) (cy w1) (cx w1) charWidth\<rparr>;
             w3 = (if charWidth = 2 \<and> cx w2 + 1 < columns w2 then
                     w2\<lparr>buffer := set_cell (buffer w2) (cy w2) (cx w2 + 1) 0,
                        attrs := set_cell (attrs w2) (cy w2) (cx w2 + 1) (Attrs (cursor w2)),
                        cellWidths := set_cell (cellWidths w2) (cy w2) (cx w2 + 1) 0\<rparr>
                   else w2)
         in set_X w3 (cx w3 + charWidth))
      else w)"

definition drawChar :: "(rune \<Rightarrow> int) \<Rightarrow> 'a WideCharScreen_scheme \<Rightarrow> rune \<Rightarrow> 'a WideCharScreen_scheme" where
  "drawChar rw w ch =
     (let charWidth = rw ch in
      if charWidth = 0 then handleZeroWidth w ch
      else if cx w + charWidth > columns w then
        (if autoWrap w then
           (let w1 = set_Y (set_X w 0) (cy w + 1);
                w2 = (if cy w1 \<ge> lines w1 then
                        (let w3 = (if usingAlternate w1 then scrollUpNoHistory w1
                                   else scrollUpInternal (addToHistory w1 0))
                         in set_Y w3 (lines w3 - 1))
                      else w1)
            in drawChar_place w2 ch charWidth)
         else w)
      else drawChar_place w ch charWidth)"

definition WideCharScreen_Draw ::
  "(rune \<Rightarrow> int) \<Rightarrow> 'a WideCharScreen_scheme \<Rightarrow> rune list \<Rightarrow> 'a WideCharScreen_scheme" where
  "WideCharScreen_Draw rw w str =
     foldl (drawChar rw)
       (if \<not> usingAlternate w \<and> viewingHistory w then AlternateScreen_ScrollToBottom w else w) str"

text \<open>The inner loop of \<^verbatim>\<open>CursorBack\<close>: \<^verbatim>\<open>for X > 0 && cellWidths[Y][X] == 0 { X-- }\<close>.\<close>

function skip_continuation :: "int list \<Rightarrow> int \<Rightarrow> int" where
  "skip_continuation row x = (if x > 0 \<and> row ! nat x = 0 then skip_continuation row (x - 1) else x)"
  by pat_completeness auto
termination
  by (relation "measure (\<lambda>(row, x). nat x)") auto

declare skip_continuation.simps [simp del]

text \<open>
  An iteration that hits \<^verbatim>\<open>break\<close> leaves the cursor where every later iteration
  would break again, so the loops run their body \<open>count\<close> times.
\<close>

definition WideCharScreen_CursorBack_step :: "'a WideCharScreen_scheme \<Rightarrow> 'a WideCharScreen_scheme" where
  "WideCharScreen_CursorBack_step w =
     (if cx w \<le> 0 then w
      else set_X w (skip_continuation (cellWidths w ! nat (cy w)) (cx w - 1)))"

definition WideCharScreen_CursorBack :: "'a WideCharScreen_scheme \<Rightarrow> int \<Rightarrow> 'a WideCharScreen_scheme" where
  "WideCharScreen_CursorBack w count =
     (let w1 = (WideCharScreen_CursorBack_step ^^ nat count) w
      in if cx w1 < 0 then set_X w1 0 else w1)"

definition WideCharScreen_CursorForward_step :: "'a WideCharScreen_scheme \<Rightarrow> 'a WideCharScreen_scheme" where
  "WideCharScreen_CursorForward_step w =
     (if cx w \<ge> columns w - 1 then w
      else if get_cell (cellWidths w) (cy w) (cx w) = 2 then set_X w (cx w + 2)
      else set_X w (cx w + 1))"

definition WideCharScreen_CursorForward :: "'a WideCharScreen_scheme \<Rightarrow> int \<Rightarrow> 'a WideCharScreen_scheme" where
  "WideCharScreen_CursorForward w count =
     (let w1 = (WideCharScreen_CursorForward_step ^^ nat count) w
      in if cx w1 \<ge> columns w1 then set_X w1 (columns w1 - 1) else w1)"

text \<open>The loop of \<^verbatim>\<open>EraseCharacters\<close>, with its local \<open>x\<close> and the iterations left.\<close>

fun EraseCharacters_loop :: "nat \<Rightarrow> int \<Rightarrow> 'a WideCharScreen_scheme \<Rightarrow> 'a WideCharScreen_scheme" where
  "EraseCharacters_loop 0 x w = w"
| "EraseCharacters_loop (Suc k) x w =
     (if x < columns w then
        (let w1 = clearCellAt w (cy w) x
         in EraseCharacters_loop k
              (if x < columns w1 - 1 \<and> get_cell (cellWidths w1) (cy w1) (x + 1) = 0 then x + 2 else x + 1)
              w1)
      else w)"

definition WideCharScreen_EraseCharacters :: "'a WideCharScreen_scheme \<Rightarrow> int \<Rightarrow> 'a WideCharScreen_scheme" where
  "WideCharScreen_EraseCharacters w count = EraseCharacters_loop (nat count) (cx w) w"

text \<open>\<^verbatim>\<open>GetDisplay\<close>: per row, the runes of the cells that are no continuation and not 0.\<close>

definition WideCharScreen_GetDisplay :: "'a WideCharScreen_scheme \<Rightarrow> rune list list" where
  "WideCharScreen_GetDisplay w =
     map (\<lambda>y. map (\<lambda>x. get_cell (buffer w) (int y) (int x))
                (filter (\<lambda>x. get_cell (cellWidths w) (int y) (int x) \<noteq> 0
                              \<and> get_cell (buffer w) (int y) (int x) \<noteq> 0)
                   [0..<nat (columns w)]))
         [0..<nat (lines w)]"

text \<open>
  \<^verbatim>\<open>WideCharScreen\<close> declares \<^verbatim>\<open>switchToAlternate\<close> and \<^verbatim>\<open>switchToMain\<close> of its own
  (\<^verbatim>\<open>// Override switching to handle cell widths\<close>), which would swap \<^verbatim>\<open>cellWidths\<close>
  along with the buffer. Nothing in the repository calls them: the mode switches go
  through \<^verbatim>\<open>AlternateScreen.SetMode\<close>, \<^verbatim>\<open>ResetMode\<close> and \<^verbatim>\<open>Reset\<close>, which call the
  methods of \<^verbatim>\<open>*AlternateScreen\<close>. They are dead code and have no counterpart here;
  the main and the alternate half share the one \<^verbatim>\<open>cellWidths\<close> grid.
\<close>

section \<open>The method set of a WideCharScreen\<close>

text \<open>
  A call on a \<^verbatim>\<open>*WideCharScreen\<close> runs the method of the outermost layer that declares
  it: \<^verbatim>\<open>Draw\<close>, \<^verbatim>\<open>CursorBack\<close>, \<^verbatim>\<open>CursorForward\<close> and \<^verbatim>\<open>EraseCharacters\<close> of
  \<^verbatim>\<open>WideCharScreen\<close>; \<^verbatim>\<open>SetMode\<close>, \<^verbatim>\<open>ResetMode\<close>, \<^verbatim>\<open>Linefeed\<close>, \<^verbatim>\<open>Index\<close>, \<^verbatim>\<open>Reset\<close> and the
  three scroll calls of \<^verbatim>\<open>AlternateScreen\<close>; \<^verbatim>\<open>EraseInDisplay\<close> of \<^verbatim>\<open>HistoryScreen\<close>; the
  rest of \<^verbatim>\<open>NativeScreen\<close>. \<^verbatim>\<open>Resize\<close> is left out: \<^verbatim>\<open>NativeScreen.Resize\<close>, which the
  other layers call, is not among the sources. The calls that do nothing
  (\<^verbatim>\<open>Bell\<close>, \<^verbatim>\<open>ShiftOut\<close>, \<^verbatim>\<open>ShiftIn\<close>, \<^verbatim>\<open>DefineCharset\<close>, \<^verbatim>\<open>SetMargins\<close>, the reports,
  \<^verbatim>\<open>Debug\<close>, \<^verbatim>\<open>WriteProcessInput\<close>) are the one operation \<open>Bell\<close>.
\<close>

datatype op =
    Draw "rune list" | Bell | Backspace | Tab | Linefeed | CarriageReturn
  | CursorUp int | CursorDown int | CursorForward int | CursorBack int
  | CursorUp1 int | CursorDown1 int
  | CursorPosition int int | CursorToColumn int | CursorToLine int
  | Reset | Index | ReverseIndex | SetTabStop | ClearTabStop int
  | SaveCursor | RestoreCursor
  | InsertLines int | DeleteLines int | InsertCharacters int | DeleteCharacters int
  | EraseCharacters int | EraseInLine int bool | EraseInDisplay int
  | SetMode "int list" bool | ResetMode "int list" bool
  | SelectGraphicRendition "int list"
  | SetTitle string | SetIconName string | AlignmentDisplay
  | ScrollUp int | ScrollDown int | ScrollToBottom

primrec call :: "(rune \<Rightarrow> int) \<Rightarrow> 'a WideCharScreen_scheme \<Rightarrow> op \<Rightarrow> 'a WideCharScreen_scheme" where
  "call rw w (Draw str) = WideCharScreen_Draw rw w str"
| "call rw w Bell = w"
| "call rw w Backspace = NativeScreen_Backspace w"
| "call rw w Tab = NativeScreen_Tab w"
| "call rw w Linefeed = AlternateScreen_Linefeed w"
| "call rw w CarriageReturn = NativeScreen_CarriageReturn w"
| "call rw w (CursorUp n) = NativeScreen_CursorUp w n"
| "call rw w (CursorDown n) = NativeScreen_CursorDown w n"
| "call rw w (CursorForward n) = WideCharScreen_CursorForward w n"
| "call rw w (CursorBack n) = WideCharScreen_CursorBack w n"
| "call rw w (CursorUp1 n) = NativeScreen_CursorUp1 w n"
| "call rw w (CursorDown1 n) = NativeScreen_CursorDown1 w n"
| "call rw w (CursorPosition l c) = NativeScreen_CursorPosition w l c"
| "call rw w (CursorToColumn c) = NativeScreen_CursorToColumn w c"
| "call rw w (CursorToLine l) = NativeScreen_CursorToLine w l"
| "call rw w Reset = AlternateScreen_Reset w"
| "call rw w Index = AlternateScreen_Index w"
| "call rw w ReverseIndex = NativeScreen_ReverseIndex w"
| "call rw w SetTabStop = NativeScreen_SetTabStop w"
| "call rw w (ClearTabStop how) = NativeScreen_ClearTabStop w how"
| "call rw w SaveCursor = NativeScreen_SaveCursor w"
| "call rw w RestoreCursor = NativeScreen_RestoreCursor w"
| "call rw w (InsertLines n) = NativeScreen_InsertLines w n"
| "call rw w (DeleteLines n) = NativeScreen_DeleteLines w n"
| "call rw w (InsertCharacters n) = NativeScreen_InsertCharacters w n"
| "call rw w (DeleteCharacters n) = NativeScreen_DeleteCharacters w n"
| "call rw w (EraseCharacters n) = WideCharScreen_EraseCharacters w n"
| "call rw w (EraseInLine how private) = NativeScreen_EraseInLine w how private"
| "call rw w (EraseInDisplay how) = HistoryScreen_EraseInDisplay w how"
| "call rw w (SetMode modes private) = AlternateScreen_SetMode w modes private"
| "call rw w (ResetMode modes private) = AlternateScreen_ResetMode w modes private"
| "call rw w (SelectGraphicRendition params) = NativeScreen_SelectGraphicRendition w params"
| "call rw w (SetTitle t) = NativeScreen_SetTitle w t"
| "call rw w (SetIconName n) = NativeScreen_SetIconName w n"
| "call rw w AlignmentDisplay = NativeScreen_AlignmentDisplay w"
| "call rw w (ScrollUp n) = AlternateScreen_ScrollUp w n"
| "call rw w (ScrollDown n) = AlternateScreen_ScrollDown w n"
| "call rw w ScrollToBottom = AlternateScreen_ScrollToBottom w"

text \<open>Operations are applied in the order in which they arrive.\<close>

definition run :: "(rune \<Rightarrow> int) \<Rightarrow> 'a WideCharScreen_scheme \<Rightarrow> op list \<Rightarrow> 'a WideCharScreen_scheme" where
  "run rw w ops = foldl (call rw) w ops"

section \<open>The shape invariant\<close>

definition grid_ok :: "int \<Rightarrow> int \<Rightarrow> 'a list list \<Rightarrow> bool" where
  "grid_ok cols lns g \<longleftrightarrow> length g = nat lns \<and> (\<forall>r \<in> set g. length r = nat cols)"

text \<open>
  A cursor at rest: the column may equal \<open>columns\<close>, which is where a draw into the
  last column leaves it until the next character wraps.
\<close>

definition cursor_ok :: "int \<Rightarrow> int \<Rightarrow> Cursor \<Rightarrow> bool" where
  "cursor_ok cols lns c \<longleftrightarrow> 0 \<le> X c \<and> X c \<le> cols \<and> 0 \<le> Y c \<and> Y c < lns"

definition opt_ok :: "('a \<Rightarrow> bool) \<Rightarrow> 'a option \<Rightarrow> bool" where
  "opt_ok P v = (case v of None \<Rightarrow> True | Some x \<Rightarrow> P x)"

definition history_ok :: "int \<Rightarrow> HistoryLine list \<Rightarrow> bool" where
  "history_ok maxH hs \<longleftrightarrow> int (length hs) \<le> max 0 maxH"

text \<open>
  The states the screen can be in. At least two columns: on a screen of one column a
  wide character leaves the cursor at column 2, and \<^verbatim>\<open>CursorBack\<close> and
  \<^verbatim>\<open>handleZeroWidth\<close> then index a row out of range.
\<close>

definition wf_screen :: "'a WideCharScreen_scheme \<Rightarrow> bool" where
  "wf_screen w \<longleftrightarrow>
     2 \<le> columns w \<and> 1 \<le> lines w
     \<and> grid_ok (columns w) (lines w) (buffer w)
     \<and> grid_ok (columns w) (lines w) (attrs w)
     \<and> grid_ok (columns w) (lines w) (cellWidths w)
     \<and> cursor_ok (columns w) (lines w) (cursor w)
     \<and> opt_ok (cursor_ok (columns w) (lines w)) (saved w)
     \<and> cursor_ok (columns w) (lines w) (savedCursor w)
     \<and> cursor_ok (columns w) (lines w) (mainCursor w)
     \<and> cursor_ok (columns w) (lines w) (altCursor w)
     \<and> opt_ok (grid_ok (columns w) (lines w)) (savedBuffer w)
     \<and> opt_ok (grid_ok (columns w) (lines w)) (savedAttrs w)
     \<and> (savedBuffer w \<noteq> None \<longrightarrow> savedAttrs w \<noteq> None)
     \<and> grid_ok (columns w) (lines w) (altBuffer w)
     \<and> grid_ok (columns w) (lines w) (altAttrs w)
     \<and> (if usingAlternate w then
          grid_ok (columns w) (lines w) (mainBuffer w)
          \<and> grid_ok (columns w) (lines w) (mainAttrs w)
          \<and> history_ok (maxHistory w) (mainHistory w)
          \<and> \<not> viewingHistory w
        else True)
     \<and> history_ok (maxHistory w) (history w)
     \<and> (if viewingHistory w then savedBuffer w \<noteq> None else historyPos w = 0)"

text \<open>
  Arguments the operations are called with: the cursor moves of the base layer
  subtract or add their count without looking at its sign, so a count is not negative.
\<close>

definition op_ok :: "op \<Rightarrow> bool" where
  "op_ok p =
     (case p of CursorUp n \<Rightarrow> 0 \<le> n | CursorDown n \<Rightarrow> 0 \<le> n
      | CursorUp1 n \<Rightarrow> 0 \<le> n | CursorDown1 n \<Rightarrow> 0 \<le> n | _ \<Rightarrow> True)"

text \<open>
  The counts with which the moves of the base layer keep the cursor in the grid of
  \<open>lns\<close> lines. The count is a non-negative \<^verbatim>\<open>int\<close>, and a move down does not
  overflow: added to the last row, \<open>lns - 1\<close>, the count is still an \<^verbatim>\<open>int\<close>. (A sum
  past \<open>2 ^ 63 - 1\<close> wraps to a negative row, which \<^verbatim>\<open>CursorDown\<close> does not clamp.)
\<close>

definition op_fits :: "int \<Rightarrow> op \<Rightarrow> bool" where
  "op_fits lns p =
     (case p of CursorUp n \<Rightarrow> 0 \<le> n \<and> int64 n | CursorDown n \<Rightarrow> 0 \<le> n \<and> int64 (lns - 1 + n)
      | CursorUp1 n \<Rightarrow> 0 \<le> n \<and> int64 n | CursorDown1 n \<Rightarrow> 0 \<le> n \<and> int64 (lns - 1 + n)
      | _ \<Rightarrow> True)"

text \<open>
  The bound on the history, for the active half and for the dormant main half while
  the alternate buffer is active.
\<close>

definition hist_inv :: "'a WideCharScreen_scheme \<Rightarrow> bool" where
  "hist_inv w \<longleftrightarrow>
     history_ok (maxHistory w) (history w)
     \<and> (if usingAlternate w then history_ok (maxHistory w) (mainHistory w) else True)"

text \<open>What is used of \<^verbatim>\<open>runewidth.RuneWidth\<close>: a width is 0, 1 or 2.\<close>

definition width_ok :: "(rune \<Rightarrow> int) \<Rightarrow> bool" where
  "width_ok rw \<longleftrightarrow> (\<forall>c. 0 \<le> rw c \<and> rw c \<le> 2)"

text \<open>The size of the grid and of the history: no operation modelled here changes them.\<close>

definition geometry :: "'a WideCharScreen_scheme \<Rightarrow> int \<times> int \<times> int" where
  "geometry w = (columns w, lines w, maxHistory w)"

text \<open>The dormant main half while the alternate buffer is active.\<close>

definition main_slot ::
  "'a AlternateScreen_scheme \<Rightarrow>
     rune list list \<times> Attributes list list \<times> Cursor \<times> (int \<rightharpoonup> bool) \<times> HistoryLine list" where
  "main_slot a = (mainBuffer a, mainAttrs a, mainCursor a, mainTabStops a, mainHistory a)"

text \<open>
  The operations that leave the alternate buffer active: all but \<^verbatim>\<open>Reset\<close> and a
  \<^verbatim>\<open>ResetMode\<close> of one of the private modes 1049, 1047 and 47.
\<close>

definition stays_alternate :: "op \<Rightarrow> bool" where
  "stays_alternate p =
     (case p of
        Reset \<Rightarrow> False
      | ResetMode modes private \<Rightarrow> \<not> (private \<and> (1049 \<in> set modes \<or> 1047 \<in> set modes \<or> 47 \<in> set modes))
      | _ \<Rightarrow> True)"

text \<open>
  A width function for the worked examples: the combining diacritical marks
  U+0300..U+036F have width 0, the CJK unified ideographs U+4E00..U+9FFF width 2, every
  other rune width 1. go-runewidth gives the same widths to the runes of the examples
  (ASCII letters and U+4E16).
\<close>

definition sample_width :: "rune \<Rightarrow> int" where
  "sample_width c = (if 768 \<le> c \<and> c \<le> 879 then 0 else if 19968 \<le> c \<and> c \<le> 40959 then 2 else 1)"

text \<open>
  A screen of 3 columns and 2 lines after the text a, CR, LF, b, CR, LF, c: the line
  with a has scrolled into the history, the rows show b and c.
\<close>

definition demo_screen :: WideCharScreen where
  "demo_screen = run sample_width (NewWideCharScreen 3 2 10)
     [Draw [97], CarriageReturn, Linefeed, Draw [98], CarriageReturn, Linefeed, Draw [99]]"







text \<open>The snapshot that \<^verbatim>\<open>addToHistory(0)\<close> takes of a row of full width: the top row.\<close>

definition top_row :: "'a HistoryScreen_scheme \<Rightarrow> HistoryLine" where
  "top_row h = \<lparr>Chars = buffer h ! 0, LineAttrs = attrs h ! 0\<rparr>"

text \<open>The sample screen after the text d, e: row 1 is full and the cursor rests at column 3.\<close>

definition demo_full :: WideCharScreen where
  "demo_full = WideCharScreen_Draw sample_width demo_screen [100, 101]"

text \<open>
  A screen of 4 columns and 2 lines with the text a, b, c on the main screen, and the
  same screen after a visit to the alternate screen (private mode 1049 set and reset)
  during which the one wide character U+4E16 was drawn.
\<close>

definition main_abc :: WideCharScreen where
  "main_abc = run sample_width (NewWideCharScreen 4 2 10) [Draw [97, 98, 99]]"

definition main_abc_back :: WideCharScreen where
  "main_abc_back = run sample_width main_abc [SetMode [1049] True, Draw [19990], ResetMode [1049] True]"

text \<open>The alternate buffer is active and the dormant main half is \<open>S\<close>.\<close>

definition in_alt ::
  "rune list list \<times> Attributes list list \<times> Cursor \<times> (int \<rightharpoonup> bool) \<times> HistoryLine list
     \<Rightarrow> 'a WideCharScreen_scheme \<Rightarrow> bool" where
  "in_alt S v \<longleftrightarrow> usingAlternate v \<and> main_slot v = S"

section \<open>Evaluating the operations on concrete screens\<close>

lemma wrap64_id: "int64 v \<Longrightarrow> wrap64 v = v"
  by (simp add: wrap64_def int64_def)

lemma wrap64_0 [simp]: "wrap64 0 = 0"
  by (simp add: wrap64_def)

lemma list_update_Cons_numeral: "(x # xs)[numeral v := y] = x # xs[numeral v - 1 := y]"
  by (simp add: numeral_eq_Suc)

lemma replicate_numeral: "replicate (numeral v) a = a # replicate (numeral v - 1) a"
  by (simp add: numeral_eq_Suc)

lemmas new_defs = NewWideCharScreen_def NewAlternateScreen_def NewHistoryScreen_def NewNativeScreen_def
  NativeScreen.extend_def HistoryScreen.extend_def AlternateScreen.extend_def
  HistoryScreen.fields_def AlternateScreen.fields_def WideCharScreen.fields_def
  ones_grid_def blank_chars_def zero_attrs_def Cursor_origin_def

lemmas eval_defs = new_defs list_update_Cons_numeral replicate_numeral
  WideCharScreen_Draw_def drawChar_def drawChar_place_def handleZeroWidth_def Let_def GetCursor_def
  set_cell_def get_cell_def scrollUpInternal_def addToHistory_def trim_history_def scrollUpNoHistory_def
  copy_at_def copy_go_def slice_def clearCellAt.simps skip_continuation.simps

section \<open>Slices and grids\<close>

lemma length_copy_go [simp]: "length (copy_go dst src) = length dst"
  by (simp add: copy_go_def)

lemma copy_go_same_length [simp]: "length src = length dst \<Longrightarrow> copy_go dst src = src"
  by (simp add: copy_go_def)

lemma set_copy_go: "set (copy_go dst src) \<subseteq> set dst \<union> set src"
  unfolding copy_go_def using set_take_subset set_drop_subset by fastforce

lemma length_copy_at [simp]: "length (copy_at xs d src) = length xs"
  by (simp add: copy_at_def)

lemma set_copy_at: "set (copy_at xs d src) \<subseteq> set xs \<union> set src"
  unfolding copy_at_def using set_copy_go[of "drop (nat d) xs" src] set_take_subset[of "nat d" xs] set_drop_subset[of "nat d" xs]
  by auto

lemma set_slice: "set (slice xs lo hi) \<subseteq> set xs"
  unfolding slice_def by (meson set_drop_subset set_take_subset subset_trans)

lemma all_set_update:
  "n < length g \<Longrightarrow> P r' = P (g ! n) \<Longrightarrow> (\<forall>r\<in>set (g[n := r']). P r) = (\<forall>r\<in>set g. P r)"
  by (auto simp: all_set_conv_all_nth nth_list_update split: if_splits)

lemma grid_ok_set_cell [simp]: "grid_ok c l (set_cell g y x v) = grid_ok c l g"
proof (cases "nat y < length g")
  case True
  then show ?thesis
    unfolding grid_ok_def set_cell_def by (simp add: all_set_update)
next
  case False
  then show ?thesis by (simp add: set_cell_def list_update_beyond)
qed

lemma grid_ok_fill_cells [simp]: "grid_ok c l (fill_cells g y x0 x1 v) = grid_ok c l g"
proof -
  have "grid_ok c l (fold (\<lambda>x h. set_cell h y (int x) v) xs g) = grid_ok c l g" for xs
    by (induction xs arbitrary: g) auto
  then show ?thesis by (simp add: fill_cells_def)
qed

lemma grid_ok_fill_rows [simp]: "grid_ok c l (fill_rows g y0 y1 cols v) = grid_ok c l g"
proof -
  have "grid_ok c l (fold (\<lambda>y h. fill_cells h (int y) 0 cols v) ys g) = grid_ok c l g" for ys
    by (induction ys arbitrary: g) auto
  then show ?thesis by (simp add: fill_rows_def)
qed

lemma grid_ok_update: "grid_ok c l g \<Longrightarrow> length r = nat c \<Longrightarrow> grid_ok c l (g[n := r])"
  unfolding grid_ok_def using set_update_subset_insert[of g n r] by auto

lemma grid_ok_update_row:
  "grid_ok c l g \<Longrightarrow> length r = length (g ! n) \<Longrightarrow> grid_ok c l (g[n := r])"
  by (cases "n < length g") (auto simp: grid_ok_def all_set_update list_update_beyond)

lemma grid_ok_copy_at: "grid_ok c l g \<Longrightarrow> set src \<subseteq> set g \<Longrightarrow> grid_ok c l (copy_at g d src)"
  unfolding grid_ok_def using set_copy_at[of g d src] by auto

lemma grid_ok_nth: "grid_ok c l g \<Longrightarrow> n < nat l \<Longrightarrow> length (g ! n) = nat c"
  unfolding grid_ok_def by auto

lemma grid_ok_length: "grid_ok c l g \<Longrightarrow> length g = nat l"
  unfolding grid_ok_def by auto

lemma copy_rows_id:
  assumes "grid_ok c l g"
  shows "map (\<lambda>i. copy_go (replicate (nat c) z) (g ! i)) [0..<nat l] = g"
proof -
  have "map (\<lambda>i. copy_go (replicate (nat c) z) (g ! i)) [0..<nat l] = map (\<lambda>i. g ! i) [0..<nat l]"
    using assms by (intro map_cong) (auto simp: grid_ok_nth)
  also have "\<dots> = g" using assms by (simp add: grid_ok_length[symmetric] map_nth)
  finally show ?thesis .
qed

lemma saveCurrentScreen_wf:
  assumes "wf_screen w"
  shows "saveCurrentScreen w = w\<lparr>savedBuffer := Some (buffer w), savedAttrs := Some (attrs w), savedCursor := cursor w\<rparr>"
  using assms by (simp add: saveCurrentScreen_def wf_screen_def zero_attrs_def copy_rows_id)


lemma wf_New: "2 \<le> c \<Longrightarrow> 1 \<le> l \<Longrightarrow> wf_screen (NewWideCharScreen c l m)"
  by (simp add: wf_screen_def new_defs grid_ok_def cursor_ok_def opt_ok_def history_ok_def)

lemma ScrollUp_live:
  assumes "wf_screen w" and "\<not> usingAlternate w" and "\<not> viewingHistory w"
    and "1 \<le> n" and "n \<le> int (length (history w))"
  shows "AlternateScreen_ScrollUp w n =
           renderHistoryView (w\<lparr>savedBuffer := Some (buffer w), savedAttrs := Some (attrs w),
              savedCursor := cursor w, viewingHistory := True, historyPos := n\<rparr>)"
proof -
  have pos: "historyPos w = 0" using assms(1,3) by (simp add: wf_screen_def)
  show ?thesis
    using assms(2-5) pos
    by (simp add: AlternateScreen_ScrollUp_def HistoryScreen_ScrollUp_def Let_def
        saveCurrentScreen_wf[OF assms(1)])
qed

lemma ScrollUp_ScrollDown_state:
  assumes "wf_screen w" and "\<not> usingAlternate w" and "\<not> viewingHistory w"
    and "1 \<le> n" and "n \<le> int (length (history w))"
  shows "AlternateScreen_ScrollDown (AlternateScreen_ScrollUp w n) n =
           w\<lparr>savedCursor := cursor w, historyPos := 0,
             cursor := (cursor w)\<lparr>Hidden := False\<rparr>, savedBuffer := None,
             savedAttrs := None, viewingHistory := False\<rparr>"
  using assms(2,3)
  by (simp add: ScrollUp_live[OF assms] AlternateScreen_ScrollDown_def HistoryScreen_ScrollDown_def
      renderHistoryView_def restoreCurrentScreen_def slice_of_def Let_def)


section \<open>The operations keep the shape invariant\<close>

lemma length_blank [simp]: "length (blank_chars c) = nat c" "length (zero_attrs c) = nat c"
  by (simp_all add: blank_chars_def zero_attrs_def)

lemma history_ok_Nil [simp]: "history_ok m []"
  by (simp add: history_ok_def)

lemma wfD:
  assumes "wf_screen w"
  shows "2 \<le> columns w" "1 \<le> lines w"
    "grid_ok (columns w) (lines w) (buffer w)"
    "grid_ok (columns w) (lines w) (attrs w)"
    "grid_ok (columns w) (lines w) (cellWidths w)"
    "cursor_ok (columns w) (lines w) (cursor w)"
    "history_ok (maxHistory w) (history w)"
  using assms by (simp_all add: wf_screen_def)

lemma wf_upd_cursor: "wf_screen w \<Longrightarrow> cursor_ok (columns w) (lines w) k \<Longrightarrow> wf_screen (w\<lparr>cursor := k\<rparr>)"
  by (simp add: wf_screen_def)

lemma wf_upd_buffer: "wf_screen w \<Longrightarrow> grid_ok (columns w) (lines w) b \<Longrightarrow> wf_screen (w\<lparr>buffer := b\<rparr>)"
  by (simp add: wf_screen_def)

lemma wf_upd_attrs: "wf_screen w \<Longrightarrow> grid_ok (columns w) (lines w) b \<Longrightarrow> wf_screen (w\<lparr>attrs := b\<rparr>)"
  by (simp add: wf_screen_def)

lemma wf_upd_cellWidths: "wf_screen w \<Longrightarrow> grid_ok (columns w) (lines w) b \<Longrightarrow> wf_screen (w\<lparr>cellWidths := b\<rparr>)"
  by (simp add: wf_screen_def)

lemma wf_upd_history: "wf_screen w \<Longrightarrow> history_ok (maxHistory w) h \<Longrightarrow> wf_screen (w\<lparr>history := h\<rparr>)"
  by (simp add: wf_screen_def)

lemma wf_upd_saved: "wf_screen w \<Longrightarrow> opt_ok (cursor_ok (columns w) (lines w)) k \<Longrightarrow> wf_screen (w\<lparr>saved := k\<rparr>)"
  by (simp add: wf_screen_def)

lemma wf_upd_misc:
  "wf_screen w \<Longrightarrow> wf_screen (w\<lparr>tabStops := t\<rparr>)"
  "wf_screen w \<Longrightarrow> wf_screen (w\<lparr>autoWrap := b\<rparr>)"
  "wf_screen w \<Longrightarrow> wf_screen (w\<lparr>newlineMode := b\<rparr>)"
  "wf_screen w \<Longrightarrow> wf_screen (w\<lparr>title := s\<rparr>)"
  "wf_screen w \<Longrightarrow> wf_screen (w\<lparr>iconName := s\<rparr>)"
  by (simp_all add: wf_screen_def)

lemmas wf_upd = wf_upd_cursor wf_upd_buffer wf_upd_attrs wf_upd_cellWidths wf_upd_history wf_upd_saved wf_upd_misc

lemma history_ok_trim: "history_ok m hs \<Longrightarrow> history_ok m (trim_history m (hs @ [x]))"
  by (cases hs) (auto simp: history_ok_def trim_history_def)

lemma grid_ok_copy_drop: "grid_ok c l g \<Longrightarrow> grid_ok c l (copy_at g d (drop k g))"
  by (rule grid_ok_copy_at) (auto dest: in_set_dropD)

lemma grid_ok_copy_slice: "grid_ok c l g \<Longrightarrow> grid_ok c l (copy_at g d (slice g a b))"
  by (rule grid_ok_copy_at) (use set_slice[of g a b] in auto)

lemmas wf_intros = wf_upd grid_ok_update grid_ok_copy_drop grid_ok_copy_slice
  history_ok_trim

lemma wf_Backspace: "wf_screen w \<Longrightarrow> wf_screen (NativeScreen_Backspace w)"
  using wfD[of w] by (auto intro!: wf_intros simp: NativeScreen_Backspace_def cursor_ok_def)

lemma wf_Tab: "wf_screen w \<Longrightarrow> wf_screen (NativeScreen_Tab w)"
proof -
  assume w: "wf_screen w"
  note c = wfD(1,2,6)[OF w]
  show ?thesis
  proof (cases "filter (\<lambda>x. tab_at (tabStops w) x) [cx w + 1 .. columns w - 1]")
    case Nil
    then have "NativeScreen_Tab w = w\<lparr>cursor := (cursor w)\<lparr>X := columns w - 1\<rparr>\<rparr>"
      by (simp add: NativeScreen_Tab_def)
    then show ?thesis using w c by (simp add: wf_upd_cursor cursor_ok_def)
  next
    case (Cons x xs)
    have "x \<in> set (filter (\<lambda>x. tab_at (tabStops w) x) [cx w + 1 .. columns w - 1])"
      unfolding Cons by simp
    then have x: "cx w + 1 \<le> x" "x \<le> columns w - 1" by simp_all
    from Cons have "NativeScreen_Tab w = w\<lparr>cursor := (cursor w)\<lparr>X := x\<rparr>\<rparr>"
      by (simp add: NativeScreen_Tab_def)
    then show ?thesis using w c x by (simp add: wf_upd_cursor cursor_ok_def)
  qed
qed

lemma wf_Linefeed: "wf_screen w \<Longrightarrow> wf_screen (AlternateScreen_Linefeed w)"
  using wfD[of w]
  by (auto intro!: wf_intros simp: AlternateScreen_Linefeed_def HistoryScreen_Linefeed_def
      scrollUpNoHistory_def scrollUpInternal_def addToHistory_def Let_def cursor_ok_def)

lemma wf_Index: "wf_screen w \<Longrightarrow> wf_screen (AlternateScreen_Index w)"
  using wfD[of w]
  by (auto intro!: wf_intros simp: AlternateScreen_Index_def HistoryScreen_Index_def
      scrollUpNoHistory_def scrollUpInternal_def addToHistory_def Let_def cursor_ok_def)

lemma wf_CarriageReturn: "wf_screen w \<Longrightarrow> wf_screen (NativeScreen_CarriageReturn w)"
  using wfD[of w] by (auto intro!: wf_intros simp: NativeScreen_CarriageReturn_def cursor_ok_def)

lemma CursorUp_fits:
  assumes "wf_screen w" and "int64 (lines w)" and "0 \<le> n" and "int64 n"
  shows "wrap64 (cy w - n) = cy w - n"
  using wfD(6)[OF assms(1)] assms(2-4) by (intro wrap64_id) (simp add: int64_def cursor_ok_def)

lemma CursorDown_fits:
  assumes "wf_screen w" and "0 \<le> n" and "int64 (lines w - 1 + n)"
  shows "wrap64 (cy w + n) = cy w + n"
  using wfD(6)[OF assms(1)] assms(2,3) by (intro wrap64_id) (simp add: int64_def cursor_ok_def)

lemma wf_CursorUp:
  "wf_screen w \<Longrightarrow> int64 (lines w) \<Longrightarrow> 0 \<le> n \<Longrightarrow> int64 n \<Longrightarrow> wf_screen (NativeScreen_CursorUp w n)"
  using wfD[of w]
  by (auto intro!: wf_intros simp: NativeScreen_CursorUp_def CursorUp_fits cursor_ok_def Let_def)

lemma wf_CursorDown:
  "wf_screen w \<Longrightarrow> 0 \<le> n \<Longrightarrow> int64 (lines w - 1 + n) \<Longrightarrow> wf_screen (NativeScreen_CursorDown w n)"
  using wfD[of w]
  by (auto intro!: wf_intros simp: NativeScreen_CursorDown_def CursorDown_fits cursor_ok_def Let_def)

lemma wf_CursorUp1:
  "wf_screen w \<Longrightarrow> int64 (lines w) \<Longrightarrow> 0 \<le> n \<Longrightarrow> int64 n \<Longrightarrow> wf_screen (NativeScreen_CursorUp1 w n)"
  using wfD[of w]
  by (auto intro!: wf_intros
      simp: NativeScreen_CursorUp1_def NativeScreen_CursorUp_def CursorUp_fits cursor_ok_def Let_def)

lemma wf_CursorDown1:
  "wf_screen w \<Longrightarrow> 0 \<le> n \<Longrightarrow> int64 (lines w - 1 + n) \<Longrightarrow> wf_screen (NativeScreen_CursorDown1 w n)"
  using wfD[of w]
  by (auto intro!: wf_intros
      simp: NativeScreen_CursorDown1_def NativeScreen_CursorDown_def CursorDown_fits cursor_ok_def Let_def)

lemma wf_CursorPosition: "wf_screen w \<Longrightarrow> wf_screen (NativeScreen_CursorPosition w l c)"
  using wfD[of w]
  by (auto intro!: wf_intros simp: NativeScreen_CursorPosition_def cursor_ok_def clamp_index_def)

lemma wf_CursorToColumn: "wf_screen w \<Longrightarrow> wf_screen (NativeScreen_CursorToColumn w c)"
  using wfD[of w]
  by (auto intro!: wf_intros simp: NativeScreen_CursorToColumn_def cursor_ok_def clamp_index_def)

lemma wf_CursorToLine: "wf_screen w \<Longrightarrow> wf_screen (NativeScreen_CursorToLine w l)"
  using wfD[of w]
  by (auto intro!: wf_intros simp: NativeScreen_CursorToLine_def cursor_ok_def clamp_index_def)

lemma wf_ReverseIndex: "wf_screen w \<Longrightarrow> wf_screen (NativeScreen_ReverseIndex w)"
  using wfD[of w]
  by (auto intro!: wf_intros simp: NativeScreen_ReverseIndex_def NativeScreen_scrollDown_def cursor_ok_def Let_def)

lemma wf_SetTabStop: "wf_screen w \<Longrightarrow> wf_screen (NativeScreen_SetTabStop w)"
  by (auto intro!: wf_intros simp: NativeScreen_SetTabStop_def)

lemma wf_ClearTabStop: "wf_screen w \<Longrightarrow> wf_screen (NativeScreen_ClearTabStop w how)"
  by (auto intro!: wf_intros simp: NativeScreen_ClearTabStop_def)

lemma wf_SaveCursor: "wf_screen w \<Longrightarrow> wf_screen (NativeScreen_SaveCursor w)"
  using wfD[of w] by (auto intro!: wf_intros simp: NativeScreen_SaveCursor_def opt_ok_def)

lemma wf_RestoreCursor: "wf_screen w \<Longrightarrow> wf_screen (NativeScreen_RestoreCursor w)"
proof -
  assume w: "wf_screen w"
  then have "opt_ok (cursor_ok (columns w) (lines w)) (saved w)" by (simp add: wf_screen_def)
  then show ?thesis using w
    by (auto intro!: wf_intros simp: NativeScreen_RestoreCursor_def opt_ok_def split: option.splits)
qed

lemma wf_EraseInLine: "wf_screen w \<Longrightarrow> wf_screen (NativeScreen_EraseInLine w how p)"
  using wfD[of w] by (auto intro!: wf_intros simp: NativeScreen_EraseInLine_def)

lemma wf_Native_EraseInDisplay: "wf_screen w \<Longrightarrow> wf_screen (NativeScreen_EraseInDisplay w how)"
  using wfD[of w] by (auto intro!: wf_intros simp: NativeScreen_EraseInDisplay_def NativeScreen_EraseInLine_def Let_def)

lemma wf_SGR: "wf_screen w \<Longrightarrow> wf_screen (NativeScreen_SelectGraphicRendition w ps)"
  using wfD[of w] by (auto intro!: wf_intros simp: NativeScreen_SelectGraphicRendition_def cursor_ok_def)

lemma wf_SetTitle: "wf_screen w \<Longrightarrow> wf_screen (NativeScreen_SetTitle w t)"
  by (auto intro!: wf_intros simp: NativeScreen_SetTitle_def)

lemma wf_SetIconName: "wf_screen w \<Longrightarrow> wf_screen (NativeScreen_SetIconName w t)"
  by (auto intro!: wf_intros simp: NativeScreen_SetIconName_def)

lemma wf_AlignmentDisplay: "wf_screen w \<Longrightarrow> wf_screen (NativeScreen_AlignmentDisplay w)"
  using wfD[of w] by (auto intro!: wf_intros simp: NativeScreen_AlignmentDisplay_def)

lemma wf_foldl:
  assumes "\<And>v x. wf_screen v \<Longrightarrow> wf_screen (f v x)" and "wf_screen w"
  shows "wf_screen (foldl f w xs)"
  using assms(2) by (induction xs arbitrary: w) (simp_all add: assms(1))

lemma wf_Native_SetMode_step: "wf_screen w \<Longrightarrow> wf_screen (NativeScreen_SetMode_step p w m)"
  by (auto intro!: wf_intros simp: NativeScreen_SetMode_step_def)

lemma wf_Native_SetMode: "wf_screen w \<Longrightarrow> wf_screen (NativeScreen_SetMode w ms p)"
  unfolding NativeScreen_SetMode_def by (rule wf_foldl) (auto intro: wf_Native_SetMode_step)

lemma wf_Native_ResetMode_step: "wf_screen w \<Longrightarrow> wf_screen (NativeScreen_ResetMode_step p w m)"
  by (auto intro!: wf_intros simp: NativeScreen_ResetMode_step_def)

lemma wf_Native_ResetMode: "wf_screen w \<Longrightarrow> wf_screen (NativeScreen_ResetMode w ms p)"
  unfolding NativeScreen_ResetMode_def by (rule wf_foldl) (auto intro: wf_Native_ResetMode_step)

lemma wf_funpow:
  fixes f :: "'a WideCharScreen_scheme \<Rightarrow> 'a WideCharScreen_scheme"
  assumes "\<And>v. wf_screen v \<Longrightarrow> wf_screen (f v)" and "wf_screen w"
  shows "wf_screen ((f ^^ n) w)"
  by (induction n) (simp_all add: assms)

lemma wf_InsertLines_step: "wf_screen v \<Longrightarrow> wf_screen (InsertLines_step v)"
  using wfD[of v] by (auto intro!: wf_intros simp: InsertLines_step_def)

lemma wf_InsertLines: "wf_screen w \<Longrightarrow> wf_screen (NativeScreen_InsertLines w n)"
  unfolding NativeScreen_InsertLines_def
  using wf_funpow[of InsertLines_step w "nat n", OF wf_InsertLines_step] by simp

lemma wf_DeleteLines_step: "wf_screen v \<Longrightarrow> wf_screen (DeleteLines_step v)"
  using wfD[of v] by (auto intro!: wf_intros simp: DeleteLines_step_def Let_def)

lemma wf_DeleteLines: "wf_screen w \<Longrightarrow> wf_screen (NativeScreen_DeleteLines w n)"
  unfolding NativeScreen_DeleteLines_def
  using wf_funpow[of DeleteLines_step w "nat n", OF wf_DeleteLines_step] by simp

lemma length_funpow:
  fixes f :: "'a list \<Rightarrow> 'a list"
  assumes "\<And>r. length (f r) = length r"
  shows "length ((f ^^ n) r) = length r"
  by (induction n) (simp_all add: assms)

lemma length_InsertCharacters: "length ((InsertCharacters_step x c ^^ n) r) = length r"
  by (rule length_funpow) (simp add: InsertCharacters_step_def)

lemma length_DeleteCharacters: "length ((DeleteCharacters_step x c ^^ n) r) = length r"
  by (rule length_funpow) (simp add: DeleteCharacters_step_def)

lemma wf_InsertCharacters: "wf_screen w \<Longrightarrow> wf_screen (NativeScreen_InsertCharacters w n)"
  using wfD[of w]
  by (auto intro!: wf_upd grid_ok_update_row simp: NativeScreen_InsertCharacters_def length_InsertCharacters)

lemma wf_DeleteCharacters: "wf_screen w \<Longrightarrow> wf_screen (NativeScreen_DeleteCharacters w n)"
  using wfD[of w]
  by (auto intro!: wf_upd grid_ok_update_row simp: NativeScreen_DeleteCharacters_def length_DeleteCharacters)

lemma put_line_grid:
  assumes "grid_ok c l (fst (snd st))" and "grid_ok c l (snd (snd st))"
  shows "grid_ok c l (fst (snd (put_line n cs as st))) \<and> grid_ok c l (snd (snd (put_line n cs as st)))"
  using assms by (cases st) (auto simp: put_line_def intro!: grid_ok_update_row)

lemma fold_put_line_grid:
  assumes "grid_ok c l (fst (snd st))" and "grid_ok c l (snd (snd st))"
  shows "grid_ok c l (fst (snd (fold (\<lambda>x. put_line n (f x) (g x)) xs st)))
       \<and> grid_ok c l (snd (snd (fold (\<lambda>x. put_line n (f x) (g x)) xs st)))"
  using assms by (induction xs arbitrary: st) (auto simp: put_line_grid)

lemma renderHistoryView_shape:
  assumes "grid_ok (columns w) (lines w) (buffer w)" and "grid_ok (columns w) (lines w) (attrs w)"
  shows "\<exists>b a. renderHistoryView w = w\<lparr>buffer := b, attrs := a, cursor := (cursor w)\<lparr>Hidden := True\<rparr>\<rparr>
           \<and> grid_ok (columns w) (lines w) b \<and> grid_ok (columns w) (lines w) a"
proof -
  define n where "n = nat (lines w)"
  define b0 where "b0 = fill_rows (buffer w) 0 (lines w) (columns w) 32"
  define a0 where "a0 = fill_rows (attrs w) 0 (lines w) (columns w) Attributes_zero"
  define startLine0 where "startLine0 = int (length (history w)) + lines w - historyPos w - lines w"
  define elems where "elems = drop (nat (if startLine0 < 0 then 0 else startLine0)) (history w)"
  define st1 where "st1 = fold (\<lambda>l. put_line n (Chars l) (LineAttrs l)) elems (0, b0, a0)"
  define savedStart where "savedStart = (if historyPos w \<le> lines w then lines w - historyPos w else 0)"
  define st2 where "st2 = (if int (fst st1) < lines w \<and> savedBuffer w \<noteq> None then
      fold (\<lambda>i. put_line n (slice_of (savedBuffer w) ! i) (slice_of (savedAttrs w) ! i))
        [nat savedStart..<nat (lines w)] st1 else st1)"
  have r: "renderHistoryView w = w\<lparr>buffer := fst (snd st2), attrs := snd (snd st2),
             cursor := (cursor w)\<lparr>Hidden := True\<rparr>\<rparr>"
    unfolding renderHistoryView_def Let_def st2_def savedStart_def st1_def elems_def startLine0_def
      b0_def a0_def n_def by (rule refl)
  have g0: "grid_ok (columns w) (lines w) (fst (snd (0::nat, b0, a0)))"
    "grid_ok (columns w) (lines w) (snd (snd (0::nat, b0, a0)))"
    using assms by (simp_all add: b0_def a0_def)
  have g1: "grid_ok (columns w) (lines w) (fst (snd st1))" "grid_ok (columns w) (lines w) (snd (snd st1))"
    unfolding st1_def using fold_put_line_grid[OF g0, of n Chars LineAttrs elems] by simp_all
  have g2: "grid_ok (columns w) (lines w) (fst (snd st2))" "grid_ok (columns w) (lines w) (snd (snd st2))"
    unfolding st2_def
    using g1 fold_put_line_grid[OF g1, of n "\<lambda>i. slice_of (savedBuffer w) ! i"
        "\<lambda>i. slice_of (savedAttrs w) ! i" "[nat savedStart..<nat (lines w)]"]
    by (simp_all split: if_splits)
  show ?thesis using r g2 by blast
qed

lemma wf_renderHistoryView: "wf_screen w \<Longrightarrow> wf_screen (renderHistoryView w)"
proof -
  assume w: "wf_screen w"
  note d = wfD[OF w]
  obtain b a where r: "renderHistoryView w = w\<lparr>buffer := b, attrs := a, cursor := (cursor w)\<lparr>Hidden := True\<rparr>\<rparr>"
    and g: "grid_ok (columns w) (lines w) b" "grid_ok (columns w) (lines w) a"
    using renderHistoryView_shape[OF d(3,4)] by blast
  show ?thesis unfolding r using w g d by (auto intro!: wf_upd simp: cursor_ok_def)
qed

lemma wf_upd_historyPos:
  "wf_screen w \<Longrightarrow> viewingHistory w \<Longrightarrow> wf_screen (w\<lparr>historyPos := p\<rparr>)"
  by (auto simp: wf_screen_def split: if_splits)

lemma wf_saveCurrentScreen:
  "wf_screen w \<Longrightarrow> \<not> usingAlternate w \<Longrightarrow> wf_screen ((saveCurrentScreen w)\<lparr>viewingHistory := True\<rparr>)"
  by (simp add: saveCurrentScreen_wf) (simp add: wf_screen_def opt_ok_def)

lemma wf_restoreCurrentScreen:
  "wf_screen w \<Longrightarrow> wf_screen ((restoreCurrentScreen (w\<lparr>historyPos := 0\<rparr>))\<lparr>viewingHistory := False\<rparr>)"
  by (auto simp: wf_screen_def restoreCurrentScreen_def slice_of_def opt_ok_def cursor_ok_def
      split: option.splits)

lemma wf_History_ScrollToBottom: "wf_screen w \<Longrightarrow> wf_screen (HistoryScreen_ScrollToBottom w)"
  by (simp add: HistoryScreen_ScrollToBottom_def wf_restoreCurrentScreen)

lemma wf_ScrollToBottom: "wf_screen w \<Longrightarrow> wf_screen (AlternateScreen_ScrollToBottom w)"
  by (simp add: AlternateScreen_ScrollToBottom_def wf_History_ScrollToBottom)

lemma wf_ScrollDown: "wf_screen w \<Longrightarrow> wf_screen (AlternateScreen_ScrollDown w n)"
  by (simp add: AlternateScreen_ScrollDown_def HistoryScreen_ScrollDown_def Let_def
      wf_restoreCurrentScreen wf_renderHistoryView wf_upd_historyPos)

lemma wf_ScrollUp: "wf_screen w \<Longrightarrow> wf_screen (AlternateScreen_ScrollUp w n)"
  by (auto simp: AlternateScreen_ScrollUp_def HistoryScreen_ScrollUp_def Let_def
      intro!: wf_renderHistoryView wf_upd_historyPos wf_saveCurrentScreen)

lemma wf_EraseInDisplay: "wf_screen w \<Longrightarrow> wf_screen (HistoryScreen_EraseInDisplay w how)"
proof -
  assume w: "wf_screen w"
  define h1 where "h1 = (if viewingHistory w then HistoryScreen_ScrollToBottom w else w)"
  have h1: "wf_screen h1"
    using w by (simp add: h1_def wf_History_ScrollToBottom)
  have h1v: "\<not> viewingHistory h1"
    by (simp add: h1_def HistoryScreen_ScrollToBottom_def)
  have h2: "wf_screen (NativeScreen_EraseInDisplay h1 how)" using h1 by (simp add: wf_Native_EraseInDisplay)
  have v: "\<not> viewingHistory (NativeScreen_EraseInDisplay h1 how)"
    using h1v by (simp add: NativeScreen_EraseInDisplay_def NativeScreen_EraseInLine_def Let_def)
  have "wf_screen ((NativeScreen_EraseInDisplay h1 how)\<lparr>history := [], historyPos := 0\<rparr>)"
    using h2 v by (simp add: wf_screen_def)
  then show ?thesis using h2 by (simp add: HistoryScreen_EraseInDisplay_def Let_def h1_def[symmetric])
qed

lemma wf_switchToAlternate:
  "wf_screen w \<Longrightarrow> \<not> usingAlternate w \<Longrightarrow> wf_screen (AlternateScreen_switchToAlternate w)"
  by (simp add: wf_screen_def AlternateScreen_switchToAlternate_def Let_def cursor_ok_def
      Cursor_default_def)

lemma wf_switchToMain: "wf_screen w \<Longrightarrow> wf_screen (AlternateScreen_switchToMain w)"
  by (simp add: wf_screen_def AlternateScreen_switchToMain_def)

lemma wf_Alt_SetMode_step: "wf_screen w \<Longrightarrow> wf_screen (AlternateScreen_SetMode_step w m)"
  by (auto simp: AlternateScreen_SetMode_step_def wf_switchToAlternate) (simp_all add: wf_screen_def)

lemma wf_Alt_ResetMode_step: "wf_screen w \<Longrightarrow> wf_screen (AlternateScreen_ResetMode_step w m)"
  by (auto simp: AlternateScreen_ResetMode_step_def wf_switchToMain intro!: wf_upd_cursor)
     (simp_all add: wf_screen_def)

lemma wf_SetMode: "wf_screen w \<Longrightarrow> wf_screen (AlternateScreen_SetMode w ms p)"
  unfolding AlternateScreen_SetMode_def
  by (auto intro!: wf_Native_SetMode wf_foldl wf_Alt_SetMode_step)

lemma wf_ResetMode: "wf_screen w \<Longrightarrow> wf_screen (AlternateScreen_ResetMode w ms p)"
  unfolding AlternateScreen_ResetMode_def
  by (auto intro!: wf_Native_ResetMode wf_foldl wf_Alt_ResetMode_step)

lemma wf_Reset: "wf_screen w \<Longrightarrow> wf_screen (AlternateScreen_Reset w)"
proof -
  assume w: "wf_screen w"
  define a1 where "a1 = (if usingAlternate w then AlternateScreen_switchToMain w else w)"
  have "wf_screen a1"
    using w by (simp add: a1_def wf_switchToMain)
  moreover have "\<not> usingAlternate a1"
    by (simp add: a1_def AlternateScreen_switchToMain_def)
  ultimately have a1: "wf_screen a1" "\<not> usingAlternate a1" by simp_all
  show ?thesis
    unfolding AlternateScreen_Reset_def Let_def a1_def[symmetric]
    using a1
    by (simp add: wf_screen_def HistoryScreen_Reset_def NativeScreen_Reset_def cursor_ok_def
        Cursor_default_def Cursor_origin_def opt_ok_def)
qed


lemma clearCellAt_out: "y \<ge> lines w \<or> x \<ge> columns w \<Longrightarrow> clearCellAt w y x = w"
  by (subst clearCellAt.simps) simp

lemma clearCellAt_rec:
  "\<not> (y \<ge> lines w \<or> x \<ge> columns w) \<Longrightarrow> get_cell (cellWidths w) y x = 0 \<and> x > 0
     \<Longrightarrow> clearCellAt w y x = clearCellAt w y (x - 1)"
  by (subst clearCellAt.simps) (simp add: Let_def)

lemma clearCellAt_base:
  "\<not> (y \<ge> lines w \<or> x \<ge> columns w) \<Longrightarrow> \<not> (get_cell (cellWidths w) y x = 0 \<and> x > 0)
     \<Longrightarrow> clearCellAt w y x =
          (if get_cell (cellWidths w) y x = 2 \<and> x + 1 < columns w then
             w\<lparr>buffer := set_cell (set_cell (buffer w) y x 32) y (x + 1) 32,
               attrs := set_cell (set_cell (attrs w) y x DefaultAttributes) y (x + 1) DefaultAttributes,
               cellWidths := set_cell (set_cell (cellWidths w) y x 1) y (x + 1) 1\<rparr>
           else
             w\<lparr>buffer := set_cell (buffer w) y x 32,
               attrs := set_cell (attrs w) y x DefaultAttributes,
               cellWidths := set_cell (cellWidths w) y x 1\<rparr>)"
  by (subst clearCellAt.simps) (auto simp: Let_def)

lemma clearCellAt_frame:
  "clearCellAt w y x = w\<lparr>buffer := buffer (clearCellAt w y x), attrs := attrs (clearCellAt w y x),
      cellWidths := cellWidths (clearCellAt w y x)\<rparr>"
proof (induction w y x rule: clearCellAt.induct)
  case (1 w y x)
  show ?case
  proof (cases "y \<ge> lines w \<or> x \<ge> columns w")
    case True
    then show ?thesis by (simp add: clearCellAt_out)
  next
    case False
    show ?thesis
    proof (cases "get_cell (cellWidths w) y x = 0 \<and> x > 0")
      case True
      show ?thesis unfolding clearCellAt_rec[OF False True] using 1[OF False refl True] .
    next
      case nrec: False
      show ?thesis by (simp add: clearCellAt_base[OF False nrec])
    qed
  qed
qed

lemma clearCellAt_grid:
  "grid_ok c l (buffer (clearCellAt w y x)) = grid_ok c l (buffer w)
   \<and> grid_ok c l (attrs (clearCellAt w y x)) = grid_ok c l (attrs w)
   \<and> grid_ok c l (cellWidths (clearCellAt w y x)) = grid_ok c l (cellWidths w)"
proof (induction w y x rule: clearCellAt.induct)
  case (1 w y x)
  show ?case
  proof (cases "y \<ge> lines w \<or> x \<ge> columns w")
    case True
    then show ?thesis by (simp add: clearCellAt_out)
  next
    case False
    show ?thesis
    proof (cases "get_cell (cellWidths w) y x = 0 \<and> x > 0")
      case True
      show ?thesis unfolding clearCellAt_rec[OF False True] using 1[OF False refl True] .
    next
      case nrec: False
      show ?thesis by (simp add: clearCellAt_base[OF False nrec])
    qed
  qed
qed

lemma wf_clearCellAt: "wf_screen w \<Longrightarrow> wf_screen (clearCellAt w y x)"
  using wfD[of w] clearCellAt_grid[of "columns w" "lines w" w y x]
  by (subst clearCellAt_frame) (auto intro!: wf_upd)

lemma clearCellAt_fields [simp]:
  "cursor (clearCellAt w y x) = cursor w"
  "columns (clearCellAt w y x) = columns w"
  "lines (clearCellAt w y x) = lines w"
  "autoWrap (clearCellAt w y x) = autoWrap w"
  "tabStops (clearCellAt w y x) = tabStops w"
  "history (clearCellAt w y x) = history w"
  "maxHistory (clearCellAt w y x) = maxHistory w"
  "viewingHistory (clearCellAt w y x) = viewingHistory w"
  "usingAlternate (clearCellAt w y x) = usingAlternate w"
  "mainBuffer (clearCellAt w y x) = mainBuffer w"
  "mainAttrs (clearCellAt w y x) = mainAttrs w"
  "mainCursor (clearCellAt w y x) = mainCursor w"
  "mainTabStops (clearCellAt w y x) = mainTabStops w"
  "mainHistory (clearCellAt w y x) = mainHistory w"
  by (subst clearCellAt_frame, simp)+

lemma wf_drawChar_place:
  assumes "wf_screen w" and "cx w + cw \<le> columns w" and "0 \<le> cw"
  shows "wf_screen (drawChar_place w ch cw)"
proof -
  note d = wfD[OF wf_clearCellAt[OF assms(1), of "cy w" "cx w"]]
  show ?thesis
    using assms d wf_clearCellAt[OF assms(1), of "cy w" "cx w"]
    by (auto simp: drawChar_place_def Let_def cursor_ok_def intro!: wf_upd)
qed

lemma wf_drawChar:
  assumes "wf_screen w" and "width_ok rw"
  shows "wf_screen (drawChar rw w ch)"
proof -
  have rw: "0 \<le> rw ch" "rw ch \<le> 2" using assms(2) by (simp_all add: width_ok_def)
  note d = wfD[OF assms(1)]
  show ?thesis
  proof (cases "rw ch = 0")
    case True
    then show ?thesis using assms(1) by (simp add: drawChar_def handleZeroWidth_def)
  next
    case nz: False
    show ?thesis
    proof (cases "cx w + rw ch > columns w")
      case False
      then show ?thesis using nz rw assms(1)
        by (simp add: drawChar_def Let_def wf_drawChar_place)
    next
      case True
      show ?thesis
      proof (cases "autoWrap w")
        case False
        then show ?thesis using nz True assms(1) by (simp add: drawChar_def Let_def)
      next
        case aw: True
        define w1 where "w1 = set_Y (set_X w 0) (cy w + 1)"
        define w2 where "w2 = (if cy w1 \<ge> lines w1 then
                        (let w3 = (if usingAlternate w1 then scrollUpNoHistory w1
                                   else scrollUpInternal (addToHistory w1 0))
                         in set_Y w3 (lines w3 - 1))
                      else w1)"
        have w2: "wf_screen w2 \<and> cx w2 = 0 \<and> columns w2 = columns w"
          using d assms(1)
          by (auto simp: w2_def w1_def Let_def cursor_ok_def scrollUpNoHistory_def scrollUpInternal_def
              addToHistory_def intro!: wf_intros)
        have "drawChar rw w ch = drawChar_place w2 ch (rw ch)"
          using nz True aw by (simp add: drawChar_def Let_def w2_def w1_def)
        then show ?thesis using w2 rw d(1) by (simp add: wf_drawChar_place)
      qed
    qed
  qed
qed

lemma wf_Draw: "wf_screen w \<Longrightarrow> width_ok rw \<Longrightarrow> wf_screen (WideCharScreen_Draw rw w str)"
  unfolding WideCharScreen_Draw_def
  by (rule wf_foldl) (simp_all add: wf_drawChar wf_ScrollToBottom)

lemma skip_continuation_bounds: "0 \<le> x \<Longrightarrow> 0 \<le> skip_continuation row x \<and> skip_continuation row x \<le> x"
proof (induction row x rule: skip_continuation.induct)
  case (1 row x)
  show ?case
  proof (cases "x > 0 \<and> row ! nat x = 0")
    case True
    then have "skip_continuation row x = skip_continuation row (x - 1)"
      by (subst skip_continuation.simps) simp
    then show ?thesis using 1(1)[OF True] True by simp
  next
    case False
    then have "skip_continuation row x = x" by (subst skip_continuation.simps) auto
    then show ?thesis using 1(2) by simp
  qed
qed

lemma wf_CursorBack_step: "wf_screen w \<Longrightarrow> wf_screen (WideCharScreen_CursorBack_step w)"
  using wfD[of w] skip_continuation_bounds[of "cx w - 1" "cellWidths w ! nat (cy w)"]
  by (auto simp: WideCharScreen_CursorBack_step_def cursor_ok_def intro!: wf_upd)

lemma wf_CursorBack: "wf_screen w \<Longrightarrow> wf_screen (WideCharScreen_CursorBack w n)"
proof -
  assume w: "wf_screen w"
  have s: "wf_screen ((WideCharScreen_CursorBack_step ^^ nat n) w)"
    by (rule wf_funpow) (simp_all add: wf_CursorBack_step w)
  show ?thesis using s wfD[OF s]
    by (auto simp: WideCharScreen_CursorBack_def Let_def cursor_ok_def intro!: wf_upd)
qed

lemma wf_CursorForward_step: "wf_screen w \<Longrightarrow> wf_screen (WideCharScreen_CursorForward_step w)"
  using wfD[of w]
  by (auto simp: WideCharScreen_CursorForward_step_def cursor_ok_def intro!: wf_upd)

lemma wf_CursorForward: "wf_screen w \<Longrightarrow> wf_screen (WideCharScreen_CursorForward w n)"
proof -
  assume w: "wf_screen w"
  have s: "wf_screen ((WideCharScreen_CursorForward_step ^^ nat n) w)"
    by (rule wf_funpow) (simp_all add: wf_CursorForward_step w)
  show ?thesis using s wfD[OF s]
    by (auto simp: WideCharScreen_CursorForward_def Let_def cursor_ok_def intro!: wf_upd)
qed

lemma wf_EraseCharacters_loop: "wf_screen w \<Longrightarrow> wf_screen (EraseCharacters_loop k x w)"
  by (induction k arbitrary: x w) (simp_all add: Let_def wf_clearCellAt)

lemma wf_EraseCharacters: "wf_screen w \<Longrightarrow> wf_screen (WideCharScreen_EraseCharacters w n)"
  by (simp add: WideCharScreen_EraseCharacters_def wf_EraseCharacters_loop)

section \<open>The size of the screen does not change\<close>

lemma foldl_invariant:
  assumes "\<And>v x. P v \<Longrightarrow> P (f v x)" and "P w"
  shows "P (foldl f w xs)"
  using assms(2) by (induction xs arbitrary: w) (simp_all add: assms(1))

lemma foldl_invariant_list:
  assumes "\<And>v x. P v \<Longrightarrow> Q x \<Longrightarrow> P (f v x)" and "P w" and "list_all Q xs"
  shows "P (foldl f w xs)"
  using assms(2,3) by (induction xs arbitrary: w) (simp_all add: assms(1))

lemma funpow_invariant:
  fixes f :: "'a \<Rightarrow> 'a"
  assumes "\<And>v. P v \<Longrightarrow> P (f v)" and "P w"
  shows "P ((f ^^ n) w)"
  by (induction n) (simp_all add: assms)

lemma geometry_simple:
  "geometry (NativeScreen_Backspace w) = geometry w"
  "geometry (NativeScreen_CarriageReturn w) = geometry w"
  "geometry (NativeScreen_CursorUp w n) = geometry w"
  "geometry (NativeScreen_CursorDown w n) = geometry w"
  "geometry (NativeScreen_CursorUp1 w n) = geometry w"
  "geometry (NativeScreen_CursorDown1 w n) = geometry w"
  "geometry (NativeScreen_CursorPosition w l c) = geometry w"
  "geometry (NativeScreen_CursorToColumn w c) = geometry w"
  "geometry (NativeScreen_CursorToLine w l) = geometry w"
  "geometry (NativeScreen_ReverseIndex w) = geometry w"
  "geometry (NativeScreen_SetTabStop w) = geometry w"
  "geometry (NativeScreen_ClearTabStop w how) = geometry w"
  "geometry (NativeScreen_SaveCursor w) = geometry w"
  "geometry (NativeScreen_InsertCharacters w n) = geometry w"
  "geometry (NativeScreen_DeleteCharacters w n) = geometry w"
  "geometry (NativeScreen_EraseInLine w how p) = geometry w"
  "geometry (NativeScreen_SelectGraphicRendition w ps) = geometry w"
  "geometry (NativeScreen_SetTitle w t) = geometry w"
  "geometry (NativeScreen_SetIconName w t) = geometry w"
  "geometry (NativeScreen_AlignmentDisplay w) = geometry w"
  by (simp_all add: geometry_def NativeScreen_Backspace_def NativeScreen_CarriageReturn_def
      NativeScreen_CursorUp_def NativeScreen_CursorDown_def NativeScreen_CursorUp1_def
      NativeScreen_CursorDown1_def NativeScreen_CursorPosition_def NativeScreen_CursorToColumn_def
      NativeScreen_CursorToLine_def NativeScreen_ReverseIndex_def NativeScreen_scrollDown_def
      NativeScreen_SetTabStop_def NativeScreen_ClearTabStop_def NativeScreen_SaveCursor_def
      NativeScreen_InsertCharacters_def NativeScreen_DeleteCharacters_def NativeScreen_EraseInLine_def
      NativeScreen_SelectGraphicRendition_def NativeScreen_SetTitle_def NativeScreen_SetIconName_def
      NativeScreen_AlignmentDisplay_def Let_def)

lemma geometry_Tab: "geometry (NativeScreen_Tab w) = geometry w"
  by (simp add: geometry_def NativeScreen_Tab_def split: list.splits)

lemma geometry_RestoreCursor: "geometry (NativeScreen_RestoreCursor w) = geometry w"
  by (simp add: geometry_def NativeScreen_RestoreCursor_def split: option.splits)

lemma geometry_Linefeed: "geometry (AlternateScreen_Linefeed w) = geometry w"
  by (simp add: geometry_def AlternateScreen_Linefeed_def HistoryScreen_Linefeed_def
      scrollUpNoHistory_def scrollUpInternal_def addToHistory_def Let_def)

lemma geometry_Index: "geometry (AlternateScreen_Index w) = geometry w"
  by (simp add: geometry_def AlternateScreen_Index_def HistoryScreen_Index_def
      scrollUpNoHistory_def scrollUpInternal_def addToHistory_def Let_def)

lemma geometry_ScrollToBottom: "geometry (AlternateScreen_ScrollToBottom w) = geometry w"
  by (simp add: geometry_def AlternateScreen_ScrollToBottom_def HistoryScreen_ScrollToBottom_def
      restoreCurrentScreen_def split: option.splits)

lemma geometry_ScrollDown: "geometry (AlternateScreen_ScrollDown w n) = geometry w"
  by (simp add: geometry_def AlternateScreen_ScrollDown_def HistoryScreen_ScrollDown_def
      restoreCurrentScreen_def renderHistoryView_def Let_def split: option.splits)

lemma geometry_ScrollUp: "geometry (AlternateScreen_ScrollUp w n) = geometry w"
  by (simp add: geometry_def AlternateScreen_ScrollUp_def HistoryScreen_ScrollUp_def
      saveCurrentScreen_def renderHistoryView_def Let_def)

lemma geometry_EraseInDisplay: "geometry (HistoryScreen_EraseInDisplay w how) = geometry w"
  by (simp add: geometry_def HistoryScreen_EraseInDisplay_def NativeScreen_EraseInDisplay_def
      NativeScreen_EraseInLine_def HistoryScreen_ScrollToBottom_def restoreCurrentScreen_def Let_def
      split: option.splits)

lemma geometry_Reset: "geometry (AlternateScreen_Reset w) = geometry w"
  by (simp add: geometry_def AlternateScreen_Reset_def AlternateScreen_switchToMain_def
      HistoryScreen_Reset_def NativeScreen_Reset_def Let_def)

lemma geometry_SetMode: "geometry (AlternateScreen_SetMode w ms p) = geometry w"
proof -
  have 1: "geometry (foldl (NativeScreen_SetMode_step p) v ms) = geometry w" if "geometry v = geometry w"
    for v :: "'a WideCharScreen_scheme"
    using that by (intro foldl_invariant[where P="\<lambda>v. geometry v = geometry w"])
      (simp_all add: geometry_def NativeScreen_SetMode_step_def)
  have 2: "geometry (foldl AlternateScreen_SetMode_step w ms) = geometry w"
    by (rule foldl_invariant[where P="\<lambda>v. geometry v = geometry w"])
      (simp_all add: geometry_def AlternateScreen_SetMode_step_def AlternateScreen_switchToAlternate_def Let_def)
  show ?thesis using 1 2 by (simp add: AlternateScreen_SetMode_def NativeScreen_SetMode_def)
qed

lemma geometry_ResetMode: "geometry (AlternateScreen_ResetMode w ms p) = geometry w"
proof -
  have 1: "geometry (foldl (NativeScreen_ResetMode_step p) v ms) = geometry w" if "geometry v = geometry w"
    for v :: "'a WideCharScreen_scheme"
    using that by (intro foldl_invariant[where P="\<lambda>v. geometry v = geometry w"])
      (simp_all add: geometry_def NativeScreen_ResetMode_step_def)
  have 2: "geometry (foldl AlternateScreen_ResetMode_step w ms) = geometry w"
    by (rule foldl_invariant[where P="\<lambda>v. geometry v = geometry w"])
      (simp_all add: geometry_def AlternateScreen_ResetMode_step_def AlternateScreen_switchToMain_def)
  show ?thesis using 1 2 by (simp add: AlternateScreen_ResetMode_def NativeScreen_ResetMode_def)
qed

lemma geometry_InsertLines: "geometry (NativeScreen_InsertLines w n) = geometry w"
proof -
  have "geometry ((InsertLines_step ^^ nat n) w) = geometry w"
    by (rule funpow_invariant[where P="\<lambda>v. geometry v = geometry w"])
      (simp_all add: geometry_def InsertLines_step_def)
  then show ?thesis by (simp add: NativeScreen_InsertLines_def)
qed

lemma geometry_DeleteLines: "geometry (NativeScreen_DeleteLines w n) = geometry w"
proof -
  have "geometry ((DeleteLines_step ^^ nat n) w) = geometry w"
    by (rule funpow_invariant[where P="\<lambda>v. geometry v = geometry w"])
      (simp_all add: geometry_def DeleteLines_step_def Let_def)
  then show ?thesis by (simp add: NativeScreen_DeleteLines_def)
qed

lemma geometry_clearCellAt: "geometry (clearCellAt w y x) = geometry w"
  by (simp add: geometry_def)

lemma geometry_drawChar_place: "geometry (drawChar_place w ch cw) = geometry w"
  by (simp add: geometry_def drawChar_place_def Let_def)

lemma geometry_drawChar: "geometry (drawChar rw w ch) = geometry w"
  by (simp add: drawChar_def handleZeroWidth_def Let_def geometry_drawChar_place)
     (simp add: geometry_def scrollUpNoHistory_def scrollUpInternal_def addToHistory_def)

lemma geometry_Draw: "geometry (WideCharScreen_Draw rw w str) = geometry w"
  unfolding WideCharScreen_Draw_def
  by (rule foldl_invariant[where P="\<lambda>v. geometry v = geometry w"])
    (simp_all add: geometry_drawChar geometry_ScrollToBottom)

lemma geometry_CursorBack: "geometry (WideCharScreen_CursorBack w n) = geometry w"
proof -
  have "geometry ((WideCharScreen_CursorBack_step ^^ nat n) w) = geometry w"
    by (rule funpow_invariant[where P="\<lambda>v. geometry v = geometry w"])
      (simp_all add: geometry_def WideCharScreen_CursorBack_step_def)
  then show ?thesis by (simp add: WideCharScreen_CursorBack_def Let_def geometry_def)
qed

lemma geometry_CursorForward: "geometry (WideCharScreen_CursorForward w n) = geometry w"
proof -
  have "geometry ((WideCharScreen_CursorForward_step ^^ nat n) w) = geometry w"
    by (rule funpow_invariant[where P="\<lambda>v. geometry v = geometry w"])
      (simp_all add: geometry_def WideCharScreen_CursorForward_step_def)
  then show ?thesis by (simp add: WideCharScreen_CursorForward_def Let_def geometry_def)
qed

lemma geometry_EraseCharacters_loop: "geometry (EraseCharacters_loop k x w) = geometry w"
  by (induction k arbitrary: x w) (simp_all add: Let_def geometry_clearCellAt)

lemma geometry_EraseCharacters: "geometry (WideCharScreen_EraseCharacters w n) = geometry w"
  by (simp add: WideCharScreen_EraseCharacters_def geometry_EraseCharacters_loop)

lemma geometry_call: "geometry (call rw w p) = geometry w"
  by (cases p)
    (simp_all add: geometry_simple geometry_Tab geometry_RestoreCursor geometry_Linefeed geometry_Index
      geometry_ScrollToBottom geometry_ScrollDown geometry_ScrollUp geometry_EraseInDisplay
      geometry_Reset geometry_SetMode geometry_ResetMode geometry_InsertLines geometry_DeleteLines
      geometry_Draw geometry_CursorBack geometry_CursorForward geometry_EraseCharacters)

lemma geometry_run: "geometry (run rw w ops) = geometry w"
  unfolding run_def
  by (rule foldl_invariant[where P="\<lambda>v. geometry v = geometry w"]) (simp_all add: geometry_call)

lemma wf_call:
  assumes "wf_screen w" and "int64 (lines w)" and "width_ok rw" and "op_fits (lines w) p"
  shows "wf_screen (call rw w p)"
  using assms
  by (cases p)
    (simp_all add: op_fits_def wf_Draw wf_Backspace wf_Tab wf_Linefeed wf_CarriageReturn wf_CursorUp
      wf_CursorDown wf_CursorForward wf_CursorBack wf_CursorUp1 wf_CursorDown1 wf_CursorPosition
      wf_CursorToColumn wf_CursorToLine wf_Reset wf_Index wf_ReverseIndex wf_SetTabStop
      wf_ClearTabStop wf_SaveCursor wf_RestoreCursor wf_InsertLines wf_DeleteLines
      wf_InsertCharacters wf_DeleteCharacters wf_EraseCharacters wf_EraseInLine wf_EraseInDisplay
      wf_SetMode wf_ResetMode wf_SGR wf_SetTitle wf_SetIconName wf_AlignmentDisplay wf_ScrollUp
      wf_ScrollDown wf_ScrollToBottom)

lemma wf_run:
  assumes "wf_screen w" and "int64 (lines w)" and "width_ok rw" and "list_all (op_fits (lines w)) ops"
  shows "wf_screen (run rw w ops)"
proof -
  have step: "wf_screen (call rw v p) \<and> lines (call rw v p) = lines w"
    if "wf_screen v \<and> lines v = lines w" and "op_fits (lines w) p" for v :: "'a WideCharScreen_scheme" and p
    using that assms(2,3) geometry_call[of rw v p] by (simp add: wf_call geometry_def)
  have "wf_screen (foldl (call rw) w ops) \<and> lines (foldl (call rw) w ops) = lines w"
    by (rule foldl_invariant_list[where P="\<lambda>v. wf_screen v \<and> lines v = lines w" and Q="op_fits (lines w)"])
      (simp_all add: step assms(1,4))
  then show ?thesis by (simp add: run_def)
qed

section \<open>A sample screen\<close>

lemmas op_defs = run_def NativeScreen_CarriageReturn_def AlternateScreen_Linefeed_def HistoryScreen_Linefeed_def
  AlternateScreen_Index_def HistoryScreen_Index_def

lemma demo_screen_fields:
  "buffer demo_screen = [[98, 32, 32], [99, 32, 32]]"
  "history demo_screen = [\<lparr>Chars = [97, 32, 32], LineAttrs = [Attributes_zero, Attributes_zero, Attributes_zero]\<rparr>]"
  "\<not> usingAlternate demo_screen" "\<not> viewingHistory demo_screen"
  "GetCursor demo_screen = (1, 1)"
  "columns demo_screen = 3" "lines demo_screen = 2"
  by (simp_all add: demo_screen_def sample_width_def eval_defs op_defs)

lemma wf_demo_screen: "wf_screen demo_screen"
  unfolding demo_screen_def
  by (intro wf_run wf_New) (simp_all add: width_ok_def sample_width_def op_fits_def int64_def new_defs)

lemma width_ok_sample: "width_ok sample_width"
  by (simp add: width_ok_def sample_width_def)

lemma wf_demo_full: "wf_screen demo_full"
  unfolding demo_full_def by (intro wf_Draw wf_demo_screen width_ok_sample)

lemma demo_full_fields:
  "buffer demo_full = [[98, 32, 32], [99, 100, 101]]"
  "history demo_full = history demo_screen"
  "\<not> usingAlternate demo_full" "\<not> viewingHistory demo_full" "autoWrap demo_full"
  "GetCursor demo_full = (3, 1)" "columns demo_full = 3" "lines demo_full = 2" "maxHistory demo_full = 10"
  by (simp_all add: demo_full_def demo_screen_def sample_width_def eval_defs op_defs)

section \<open>C1: the cursor stays inside the grid\<close>










text \<open>
  Outside the conditions of the bounds the moves of the base layer do take the cursor
  out of the grid: a negative count moves it past the side that the method does not
  clamp, and a count that overflows the row wraps it around. The absolute moves clamp
  on both sides and stay inside also when \<open>line - 1\<close> wraps.
\<close>

lemma cursor_moves_unclamped:
  "GetCursor (run sample_width (NewWideCharScreen 4 2 10) [CursorUp (- 5)]) = (0, 5)"
  "GetCursor (run sample_width (NewWideCharScreen 4 2 10) [Linefeed, CursorDown 9223372036854775807])
     = (0, - 9223372036854775808)"
  "GetCursor (run sample_width (NewWideCharScreen 4 2 10) [CursorPosition (- 9223372036854775808) 1])
     = (0, 1)"
  by (simp_all add: eval_defs op_defs NativeScreen_CursorUp_def NativeScreen_CursorDown_def wrap64_def
      NativeScreen_CursorPosition_def clamp_index_def)

section \<open>C3: scrolling captures the top row\<close>

lemma scroll_rows:
  assumes "length b = n" and "0 < n"
  shows "(copy_at b 0 (drop 1 b))[n - 1 := r] = tl b @ [r]"
proof -
  have "copy_at b 0 (drop 1 b) = drop 1 b @ drop (n - 1) b"
    using assms by (simp add: copy_at_def copy_go_def)
  moreover have "drop (n - 1) b = [last b]"
    using assms by (metis One_nat_def append_butlast_last_id append_eq_conv_conj length_butlast length_greater_0_conv)
  ultimately have "(copy_at b 0 (drop 1 b))[n - 1 := r] = (drop 1 b @ [last b])[n - 1 := r]" by simp
  also have "\<dots> = drop 1 b @ [r]" using assms by (simp add: list_update_append)
  finally show ?thesis by (simp add: drop_Suc)
qed

lemma addToHistory_top:
  assumes "wf_screen w"
  shows "addToHistory w 0 = w\<lparr>history := trim_history (maxHistory w) (history w @ [top_row w])\<rparr>"
proof -
  note d = wfD[OF assms]
  have "length (buffer w ! 0) = nat (columns w)" "length (attrs w ! 0) = nat (columns w)"
    using d by (simp_all add: grid_ok_nth)
  then show ?thesis using d(2) by (simp add: addToHistory_def top_row_def zero_attrs_def Let_def)
qed

lemma scroll_capture:
  assumes "wf_screen w"
  shows "scrollUpInternal (addToHistory w 0) =
           w\<lparr>history := trim_history (maxHistory w) (history w @ [top_row w]),
             buffer := tl (buffer w) @ [blank_chars (columns w)],
             attrs := tl (attrs w) @ [zero_attrs (columns w)]\<rparr>"
proof -
  note d = wfD[OF assms]
  have l: "length (buffer w) = nat (lines w)" "length (attrs w) = nat (lines w)" "0 < nat (lines w)"
    using d by (simp_all add: grid_ok_length)
  have n: "nat (lines w - 1) = nat (lines w) - 1" by simp
  show ?thesis
    unfolding addToHistory_top[OF assms] scrollUpInternal_def
    using scroll_rows[OF l(1) l(3)] scroll_rows[OF l(2) l(3)]
    by (simp add: n del: nat_diff_distrib')
qed

lemma Linefeed_capture:
  assumes "wf_screen w" and "\<not> usingAlternate w" and "cy w = lines w - 1"
  shows "history (AlternateScreen_Linefeed w) = trim_history (maxHistory w) (history w @ [top_row w])"
    and "buffer (AlternateScreen_Linefeed w) = tl (buffer w) @ [blank_chars (columns w)]"
    and "history (AlternateScreen_Index w) = trim_history (maxHistory w) (history w @ [top_row w])"
    and "buffer (AlternateScreen_Index w) = tl (buffer w) @ [blank_chars (columns w)]"
  using assms(2,3)
  by (simp_all add: AlternateScreen_Linefeed_def HistoryScreen_Linefeed_def AlternateScreen_Index_def
      HistoryScreen_Index_def Let_def scroll_capture[OF assms(1)])

lemma clearCellAt_rows_above:
  "0 \<le> y \<Longrightarrow> take (nat y) (buffer (clearCellAt w y x)) = take (nat y) (buffer w)"
proof (induction w y x rule: clearCellAt.induct)
  case (1 w y x)
  show ?case
  proof (cases "y \<ge> lines w \<or> x \<ge> columns w")
    case True
    then show ?thesis by (simp add: clearCellAt_out)
  next
    case False
    show ?thesis
    proof (cases "get_cell (cellWidths w) y x = 0 \<and> x > 0")
      case True
      show ?thesis unfolding clearCellAt_rec[OF False True] using 1(1)[OF False refl True 1(2)] .
    next
      case nrec: False
      show ?thesis by (simp add: clearCellAt_base[OF False nrec] set_cell_def)
    qed
  qed
qed

lemma Draw_capture:
  assumes "wf_screen w" and "\<not> usingAlternate w" and "\<not> viewingHistory w" and "autoWrap w"
    and "cy w = lines w - 1" and "rw ch \<noteq> 0" and "cx w + rw ch > columns w"
  shows "history (WideCharScreen_Draw rw w [ch]) = trim_history (maxHistory w) (history w @ [top_row w])"
    and "take (nat (lines w - 1)) (buffer (WideCharScreen_Draw rw w [ch])) = tl (buffer w)"
proof -
  note d = wfD[OF assms(1)]
  define w1 where "w1 = set_Y (set_X w 0) (cy w + 1)"
  have w1: "wf_screen (set_X w 0)" using assms(1) d by (auto intro!: wf_upd simp: cursor_ok_def)
  have a: "addToHistory w1 0 = set_Y (set_X (addToHistory w 0) 0) (cy w + 1)"
    using d(2) by (simp add: w1_def addToHistory_def Let_def)
  define w2 where "w2 = set_Y (scrollUpInternal (addToHistory w1 0)) (lines w - 1)"
  have w2: "history w2 = trim_history (maxHistory w) (history w @ [top_row w])"
    "buffer w2 = tl (buffer w) @ [blank_chars (columns w)]"
    "cy w2 = lines w - 1" "cx w2 = 0" "lines w2 = lines w" "columns w2 = columns w"
    using scroll_capture[OF assms(1)]
    by (simp_all add: w2_def a scrollUpInternal_def addToHistory_top[OF assms(1)])
  have dc: "WideCharScreen_Draw rw w [ch] = drawChar_place w2 ch (rw ch)"
    using assms(2-7) by (simp add: WideCharScreen_Draw_def drawChar_def Let_def w2_def w1_def scrollUpInternal_def addToHistory_def)
  show "history (WideCharScreen_Draw rw w [ch]) = trim_history (maxHistory w) (history w @ [top_row w])"
    unfolding dc using w2 d(1,2) by (simp add: drawChar_place_def Let_def)
  have l: "length (buffer w) = nat (lines w)" using d by (simp add: grid_ok_length)
  have "take (nat (lines w - 1)) (buffer (drawChar_place w2 ch (rw ch))) = take (nat (lines w - 1)) (buffer w2)"
    using w2 d(1,2) clearCellAt_rows_above[of "lines w - 1" w2 0]
    by (simp add: drawChar_place_def Let_def set_cell_def)
  also have "\<dots> = tl (buffer w)" using w2(2) l d(2) by simp
  finally show "take (nat (lines w - 1)) (buffer (WideCharScreen_Draw rw w [ch])) = tl (buffer w)"
    unfolding dc .
qed

text \<open>
  The bound on the history does not depend on where the cursor is: every operation
  keeps it, whatever its arguments, also after a move whose count has wrapped the row
  around.
\<close>

lemma hist_inv_simple:
  assumes "hist_inv w"
  shows "hist_inv (NativeScreen_Backspace w)"
    "hist_inv (NativeScreen_CarriageReturn w)"
    "hist_inv (NativeScreen_CursorUp w n)"
    "hist_inv (NativeScreen_CursorDown w n)"
    "hist_inv (NativeScreen_CursorUp1 w n)"
    "hist_inv (NativeScreen_CursorDown1 w n)"
    "hist_inv (NativeScreen_CursorPosition w l c)"
    "hist_inv (NativeScreen_CursorToColumn w c)"
    "hist_inv (NativeScreen_CursorToLine w l)"
    "hist_inv (NativeScreen_ReverseIndex w)"
    "hist_inv (NativeScreen_SetTabStop w)"
    "hist_inv (NativeScreen_ClearTabStop w how)"
    "hist_inv (NativeScreen_SaveCursor w)"
    "hist_inv (NativeScreen_InsertCharacters w n)"
    "hist_inv (NativeScreen_DeleteCharacters w n)"
    "hist_inv (NativeScreen_EraseInLine w how p)"
    "hist_inv (NativeScreen_SelectGraphicRendition w ps)"
    "hist_inv (NativeScreen_SetTitle w t)"
    "hist_inv (NativeScreen_SetIconName w t)"
    "hist_inv (NativeScreen_AlignmentDisplay w)"
  using assms
  by (simp_all add: hist_inv_def NativeScreen_Backspace_def NativeScreen_CarriageReturn_def
      NativeScreen_CursorUp_def NativeScreen_CursorDown_def NativeScreen_CursorUp1_def
      NativeScreen_CursorDown1_def NativeScreen_CursorPosition_def NativeScreen_CursorToColumn_def
      NativeScreen_CursorToLine_def NativeScreen_ReverseIndex_def NativeScreen_scrollDown_def
      NativeScreen_SetTabStop_def NativeScreen_ClearTabStop_def NativeScreen_SaveCursor_def
      NativeScreen_InsertCharacters_def NativeScreen_DeleteCharacters_def NativeScreen_EraseInLine_def
      NativeScreen_SelectGraphicRendition_def NativeScreen_SetTitle_def NativeScreen_SetIconName_def
      NativeScreen_AlignmentDisplay_def Let_def)

lemma hist_inv_Tab: "hist_inv w \<Longrightarrow> hist_inv (NativeScreen_Tab w)"
  by (simp add: hist_inv_def NativeScreen_Tab_def split: list.splits)

lemma hist_inv_RestoreCursor: "hist_inv w \<Longrightarrow> hist_inv (NativeScreen_RestoreCursor w)"
  by (simp add: hist_inv_def NativeScreen_RestoreCursor_def split: option.splits)

lemma hist_inv_upd:
  "hist_inv (w\<lparr>cursor := k\<rparr>) = hist_inv w"
  "hist_inv (w\<lparr>buffer := b\<rparr>) = hist_inv w"
  "hist_inv (w\<lparr>attrs := a\<rparr>) = hist_inv w"
  "hist_inv (w\<lparr>cellWidths := g\<rparr>) = hist_inv w"
  "hist_inv (scrollUpNoHistory w) = hist_inv w"
  "hist_inv (scrollUpInternal w) = hist_inv w"
  by (simp_all add: hist_inv_def scrollUpNoHistory_def scrollUpInternal_def)

lemma hist_inv_addToHistory: "hist_inv w \<Longrightarrow> hist_inv (addToHistory w n)"
  by (simp add: hist_inv_def addToHistory_def Let_def history_ok_trim)

lemma hist_inv_Linefeed: "hist_inv w \<Longrightarrow> hist_inv (AlternateScreen_Linefeed w)"
  by (simp add: AlternateScreen_Linefeed_def HistoryScreen_Linefeed_def Let_def hist_inv_upd
      hist_inv_addToHistory)

lemma hist_inv_Index: "hist_inv w \<Longrightarrow> hist_inv (AlternateScreen_Index w)"
  by (simp add: AlternateScreen_Index_def HistoryScreen_Index_def hist_inv_upd hist_inv_addToHistory)

lemma hist_inv_ScrollToBottom: "hist_inv w \<Longrightarrow> hist_inv (AlternateScreen_ScrollToBottom w)"
  by (simp add: hist_inv_def AlternateScreen_ScrollToBottom_def HistoryScreen_ScrollToBottom_def
      restoreCurrentScreen_def split: option.splits)

lemma hist_inv_ScrollDown: "hist_inv w \<Longrightarrow> hist_inv (AlternateScreen_ScrollDown w n)"
  by (simp add: hist_inv_def AlternateScreen_ScrollDown_def HistoryScreen_ScrollDown_def
      restoreCurrentScreen_def renderHistoryView_def Let_def split: option.splits)

lemma hist_inv_ScrollUp: "hist_inv w \<Longrightarrow> hist_inv (AlternateScreen_ScrollUp w n)"
  by (simp add: hist_inv_def AlternateScreen_ScrollUp_def HistoryScreen_ScrollUp_def
      saveCurrentScreen_def renderHistoryView_def Let_def)

lemma hist_inv_EraseInDisplay: "hist_inv w \<Longrightarrow> hist_inv (HistoryScreen_EraseInDisplay w how)"
  by (simp add: hist_inv_def HistoryScreen_EraseInDisplay_def NativeScreen_EraseInDisplay_def
      NativeScreen_EraseInLine_def HistoryScreen_ScrollToBottom_def restoreCurrentScreen_def Let_def
      split: option.splits)

lemma hist_inv_Reset: "hist_inv (AlternateScreen_Reset w)"
  by (simp add: hist_inv_def AlternateScreen_Reset_def AlternateScreen_switchToMain_def
      HistoryScreen_Reset_def NativeScreen_Reset_def Let_def)

lemma hist_inv_SetMode: "hist_inv w \<Longrightarrow> hist_inv (AlternateScreen_SetMode w ms p)"
proof -
  assume w: "hist_inv w"
  have 1: "hist_inv (foldl (NativeScreen_SetMode_step p) v ms)" if "hist_inv v"
    for v :: "'a WideCharScreen_scheme"
    using that by (intro foldl_invariant[where P=hist_inv])
      (simp_all add: hist_inv_def NativeScreen_SetMode_step_def)
  have 2: "hist_inv (foldl AlternateScreen_SetMode_step w ms)"
    by (rule foldl_invariant[where P=hist_inv])
      (simp_all add: w, simp add: hist_inv_def AlternateScreen_SetMode_step_def
        AlternateScreen_switchToAlternate_def Let_def)
  show ?thesis using 1 2 w by (simp add: AlternateScreen_SetMode_def NativeScreen_SetMode_def)
qed

lemma hist_inv_ResetMode: "hist_inv w \<Longrightarrow> hist_inv (AlternateScreen_ResetMode w ms p)"
proof -
  assume w: "hist_inv w"
  have 1: "hist_inv (foldl (NativeScreen_ResetMode_step p) v ms)" if "hist_inv v"
    for v :: "'a WideCharScreen_scheme"
    using that by (intro foldl_invariant[where P=hist_inv])
      (simp_all add: hist_inv_def NativeScreen_ResetMode_step_def)
  have 2: "hist_inv (foldl AlternateScreen_ResetMode_step w ms)"
    by (rule foldl_invariant[where P=hist_inv])
      (simp_all add: w, simp add: hist_inv_def AlternateScreen_ResetMode_step_def
        AlternateScreen_switchToMain_def)
  show ?thesis using 1 2 w by (simp add: AlternateScreen_ResetMode_def NativeScreen_ResetMode_def)
qed

lemma hist_inv_InsertLines: "hist_inv w \<Longrightarrow> hist_inv (NativeScreen_InsertLines w n)"
proof -
  assume w: "hist_inv w"
  have "hist_inv ((InsertLines_step ^^ nat n) w)"
    by (rule funpow_invariant[where P=hist_inv])
      (simp_all add: w, simp add: hist_inv_def InsertLines_step_def)
  then show ?thesis using w by (simp add: NativeScreen_InsertLines_def)
qed

lemma hist_inv_DeleteLines: "hist_inv w \<Longrightarrow> hist_inv (NativeScreen_DeleteLines w n)"
proof -
  assume w: "hist_inv w"
  have "hist_inv ((DeleteLines_step ^^ nat n) w)"
    by (rule funpow_invariant[where P=hist_inv])
      (simp_all add: w, simp add: hist_inv_def DeleteLines_step_def Let_def)
  then show ?thesis using w by (simp add: NativeScreen_DeleteLines_def)
qed

lemma hist_inv_clearCellAt: "hist_inv (clearCellAt w y x) = hist_inv w"
  by (simp add: hist_inv_def)

lemma hist_inv_drawChar_place: "hist_inv (drawChar_place w ch cw) = hist_inv w"
  by (simp add: hist_inv_def drawChar_place_def Let_def)

lemma hist_inv_drawChar: "hist_inv w \<Longrightarrow> hist_inv (drawChar rw w ch)"
  by (simp add: drawChar_def handleZeroWidth_def Let_def hist_inv_drawChar_place hist_inv_upd
      hist_inv_addToHistory)

lemma hist_inv_Draw: "hist_inv w \<Longrightarrow> hist_inv (WideCharScreen_Draw rw w str)"
  unfolding WideCharScreen_Draw_def
  by (rule foldl_invariant[where P=hist_inv]) (simp_all add: hist_inv_drawChar hist_inv_ScrollToBottom)

lemma hist_inv_CursorBack: "hist_inv w \<Longrightarrow> hist_inv (WideCharScreen_CursorBack w n)"
proof -
  assume w: "hist_inv w"
  have "hist_inv ((WideCharScreen_CursorBack_step ^^ nat n) w)"
    by (rule funpow_invariant[where P=hist_inv])
      (simp_all add: w, simp add: hist_inv_def WideCharScreen_CursorBack_step_def)
  then show ?thesis by (simp add: WideCharScreen_CursorBack_def Let_def hist_inv_def)
qed

lemma hist_inv_CursorForward: "hist_inv w \<Longrightarrow> hist_inv (WideCharScreen_CursorForward w n)"
proof -
  assume w: "hist_inv w"
  have "hist_inv ((WideCharScreen_CursorForward_step ^^ nat n) w)"
    by (rule funpow_invariant[where P=hist_inv])
      (simp_all add: w, simp add: hist_inv_def WideCharScreen_CursorForward_step_def)
  then show ?thesis by (simp add: WideCharScreen_CursorForward_def Let_def hist_inv_def)
qed

lemma hist_inv_EraseCharacters_loop: "hist_inv w \<Longrightarrow> hist_inv (EraseCharacters_loop k x w)"
  by (induction k arbitrary: x w) (simp_all add: Let_def hist_inv_clearCellAt)

lemma hist_inv_EraseCharacters: "hist_inv w \<Longrightarrow> hist_inv (WideCharScreen_EraseCharacters w n)"
  by (simp add: WideCharScreen_EraseCharacters_def hist_inv_EraseCharacters_loop)

lemma hist_inv_call: "hist_inv w \<Longrightarrow> hist_inv (call rw w p)"
  by (cases p)
    (simp_all add: hist_inv_simple hist_inv_Tab hist_inv_RestoreCursor hist_inv_Linefeed hist_inv_Index
      hist_inv_ScrollToBottom hist_inv_ScrollDown hist_inv_ScrollUp hist_inv_EraseInDisplay
      hist_inv_Reset hist_inv_SetMode hist_inv_ResetMode hist_inv_InsertLines hist_inv_DeleteLines
      hist_inv_Draw hist_inv_CursorBack hist_inv_CursorForward hist_inv_EraseCharacters)

lemma hist_inv_run: "hist_inv w \<Longrightarrow> hist_inv (run rw w ops)"
  unfolding run_def
  by (rule foldl_invariant[where P=hist_inv]) (simp_all add: hist_inv_call)

lemma history_bound:
  assumes "wf_screen w"
  shows "maxHistory (run rw w ops) = maxHistory w" and "GetHistorySize (run rw w ops) \<le> max 0 (maxHistory w)"
proof -
  show m: "maxHistory (run rw w ops) = maxHistory w"
    using geometry_run[of rw w ops] by (simp add: geometry_def)
  have "hist_inv w" using assms by (simp add: hist_inv_def wf_screen_def)
  then have "hist_inv (run rw w ops)" by (rule hist_inv_run)
  then show "GetHistorySize (run rw w ops) \<le> max 0 (maxHistory w)"
    by (simp add: m hist_inv_def history_ok_def GetHistorySize_def)
qed

text \<open>
  C3. On the main buffer, when the cursor is on the last row, \<^verbatim>\<open>Linefeed\<close> and
  \<^verbatim>\<open>Index\<close> append a snapshot of the top row (characters and attributes) to the
  history and then shift the rows up, a blank row coming in at the bottom; so does a
  \<^verbatim>\<open>Draw\<close> whose character does not fit any more on the last row with autowrap on.
  \<open>trim_history\<close> drops the oldest line when the history has grown past
  \<open>maxHistory\<close>, and after every sequence of operations the history holds at most
  \<open>maxHistory\<close> lines (none when \<open>maxHistory\<close> is negative).
\<close>

theorem history_capture:
  "(wf_screen w \<and> \<not> usingAlternate w \<and> cy w = lines w - 1 \<longrightarrow>
      history (AlternateScreen_Linefeed w) = trim_history (maxHistory w) (history w @ [top_row w])
      \<and> buffer (AlternateScreen_Linefeed w) = tl (buffer w) @ [blank_chars (columns w)]
      \<and> history (AlternateScreen_Index w) = trim_history (maxHistory w) (history w @ [top_row w])
      \<and> buffer (AlternateScreen_Index w) = tl (buffer w) @ [blank_chars (columns w)])
   \<and> (wf_screen w \<and> \<not> usingAlternate w \<and> \<not> viewingHistory w \<and> autoWrap w \<and> cy w = lines w - 1
        \<and> rw ch \<noteq> 0 \<and> cx w + rw ch > columns w \<longrightarrow>
      history (WideCharScreen_Draw rw w [ch]) = trim_history (maxHistory w) (history w @ [top_row w])
      \<and> take (nat (lines w - 1)) (buffer (WideCharScreen_Draw rw w [ch])) = tl (buffer w))
   \<and> (wf_screen w \<and> width_ok rw \<and> list_all op_ok ops \<longrightarrow>
      maxHistory (run rw w ops) = maxHistory w
      \<and> GetHistorySize (run rw w ops) \<le> max 0 (maxHistory w))
   \<and> trim_history maxH (old # rest) = (if int (length rest) \<ge> maxH then rest else old # rest)"
  using Linefeed_capture[of w] Draw_capture[of w rw ch] history_bound[of w rw ops]
  by (simp add: trim_history_def)

theorem history_capture_witness:
  "wf_screen demo_full \<and> \<not> usingAlternate demo_full \<and> \<not> viewingHistory demo_full \<and> autoWrap demo_full
   \<and> cy demo_full = lines demo_full - 1 \<and> sample_width 102 \<noteq> 0
   \<and> cx demo_full + sample_width 102 > columns demo_full
   \<and> width_ok sample_width \<and> list_all op_ok [Linefeed, Index]
   \<and> history (AlternateScreen_Linefeed demo_full) = history demo_full @ [top_row demo_full]
   \<and> Chars (top_row demo_full) = [98, 32, 32]
   \<and> buffer (AlternateScreen_Linefeed demo_full) = [[99, 100, 101], [32, 32, 32]]
   \<and> history (WideCharScreen_Draw sample_width demo_full [102]) = history demo_full @ [top_row demo_full]
   \<and> GetHistorySize (run sample_width demo_full [Linefeed, Index]) \<le> 10"
proof -
  have c: "cy demo_full = lines demo_full - 1" "cx demo_full + sample_width 102 > columns demo_full"
    "sample_width 102 \<noteq> 0"
    using demo_full_fields(6) by (simp_all add: GetCursor_def demo_full_fields sample_width_def)
  have o: "list_all op_ok [Linefeed, Index]" by (simp add: op_ok_def)
  have t: "trim_history 10 (history demo_full @ [top_row demo_full]) = history demo_full @ [top_row demo_full]"
    by (simp add: trim_history_def demo_full_fields demo_screen_fields)
  show ?thesis
    using history_capture[of demo_full sample_width 102 "[Linefeed, Index]"]
      wf_demo_full c o t width_ok_sample
    by (simp add: demo_full_fields top_row_def blank_chars_def replicate_numeral)
qed

section \<open>C2: the width grid after overlapping wide characters\<close>

text \<open>
  C2. The claim is the invariant of the width grid: a cell of width 0 right of column
  0 has a left neighbour of width 2 or 0. The code does not keep it. On a screen of 4
  columns the text U+4E16 U+4E16, CR, a U+4E16, CR, a b ends with the widths 1, 1, 1, 0
  in row 0: the last cell is a continuation (and still holds the rune 0) while its left
  neighbour has width 1. The wide character drawn at column 1 wrote its continuation
  over the start of the pair in columns 2 and 3 without clearing that pair, and the b
  drawn later cleared the pair in columns 1 and 2 only.
\<close>

theorem orphan_continuation:
  "cellWidths (run sample_width (NewWideCharScreen 4 2 10)
      [Draw [19990, 19990], CarriageReturn, Draw [97, 19990], CarriageReturn, Draw [97, 98]]) ! 0
     = [1, 1, 1, 0]
   \<and> buffer (run sample_width (NewWideCharScreen 4 2 10)
      [Draw [19990, 19990], CarriageReturn, Draw [97, 19990], CarriageReturn, Draw [97, 98]]) ! 0
     = [97, 98, 32, 0]"
  by (simp add: eval_defs op_defs sample_width_def)

section \<open>C4: leaving the alternate screen\<close>

lemma in_alt_simple:
  assumes "in_alt S w"
  shows "in_alt S (NativeScreen_Backspace w)"
    "in_alt S (NativeScreen_CarriageReturn w)"
    "in_alt S (NativeScreen_CursorUp w n)"
    "in_alt S (NativeScreen_CursorDown w n)"
    "in_alt S (NativeScreen_CursorUp1 w n)"
    "in_alt S (NativeScreen_CursorDown1 w n)"
    "in_alt S (NativeScreen_CursorPosition w l c)"
    "in_alt S (NativeScreen_CursorToColumn w c)"
    "in_alt S (NativeScreen_CursorToLine w l)"
    "in_alt S (NativeScreen_ReverseIndex w)"
    "in_alt S (NativeScreen_SetTabStop w)"
    "in_alt S (NativeScreen_ClearTabStop w how)"
    "in_alt S (NativeScreen_SaveCursor w)"
    "in_alt S (NativeScreen_InsertCharacters w n)"
    "in_alt S (NativeScreen_DeleteCharacters w n)"
    "in_alt S (NativeScreen_EraseInLine w how p)"
    "in_alt S (NativeScreen_SelectGraphicRendition w ps)"
    "in_alt S (NativeScreen_SetTitle w t)"
    "in_alt S (NativeScreen_SetIconName w t)"
    "in_alt S (NativeScreen_AlignmentDisplay w)"
    "in_alt S (AlternateScreen_ScrollUp w n)"
    "in_alt S (AlternateScreen_ScrollDown w n)"
    "in_alt S (AlternateScreen_ScrollToBottom w)"
  using assms
  by (simp_all add: in_alt_def main_slot_def NativeScreen_Backspace_def NativeScreen_CarriageReturn_def
      NativeScreen_CursorUp_def NativeScreen_CursorDown_def NativeScreen_CursorUp1_def
      NativeScreen_CursorDown1_def NativeScreen_CursorPosition_def NativeScreen_CursorToColumn_def
      NativeScreen_CursorToLine_def NativeScreen_ReverseIndex_def NativeScreen_scrollDown_def
      NativeScreen_SetTabStop_def NativeScreen_ClearTabStop_def NativeScreen_SaveCursor_def
      NativeScreen_InsertCharacters_def NativeScreen_DeleteCharacters_def NativeScreen_EraseInLine_def
      NativeScreen_SelectGraphicRendition_def NativeScreen_SetTitle_def NativeScreen_SetIconName_def
      NativeScreen_AlignmentDisplay_def AlternateScreen_ScrollUp_def AlternateScreen_ScrollDown_def
      AlternateScreen_ScrollToBottom_def Let_def)

lemma in_alt_Tab: "in_alt S w \<Longrightarrow> in_alt S (NativeScreen_Tab w)"
  by (simp add: in_alt_def main_slot_def NativeScreen_Tab_def split: list.splits)

lemma in_alt_RestoreCursor: "in_alt S w \<Longrightarrow> in_alt S (NativeScreen_RestoreCursor w)"
  by (simp add: in_alt_def main_slot_def NativeScreen_RestoreCursor_def split: option.splits)

lemma in_alt_Linefeed: "in_alt S w \<Longrightarrow> in_alt S (AlternateScreen_Linefeed w)"
  by (simp add: in_alt_def main_slot_def AlternateScreen_Linefeed_def scrollUpNoHistory_def Let_def)

lemma in_alt_Index: "in_alt S w \<Longrightarrow> in_alt S (AlternateScreen_Index w)"
  by (simp add: in_alt_def main_slot_def AlternateScreen_Index_def scrollUpNoHistory_def Let_def)

lemma in_alt_EraseInDisplay: "in_alt S w \<Longrightarrow> in_alt S (HistoryScreen_EraseInDisplay w how)"
  by (simp add: in_alt_def main_slot_def HistoryScreen_EraseInDisplay_def NativeScreen_EraseInDisplay_def
      NativeScreen_EraseInLine_def HistoryScreen_ScrollToBottom_def restoreCurrentScreen_def Let_def
      split: option.splits)

lemma in_alt_Native_SetMode: "in_alt S w \<Longrightarrow> in_alt S (NativeScreen_SetMode w ms p)"
  unfolding NativeScreen_SetMode_def
  by (rule foldl_invariant[where P="in_alt S"])
    (simp_all add: in_alt_def main_slot_def NativeScreen_SetMode_step_def)

lemma in_alt_Native_ResetMode: "in_alt S w \<Longrightarrow> in_alt S (NativeScreen_ResetMode w ms p)"
  unfolding NativeScreen_ResetMode_def
  by (rule foldl_invariant[where P="in_alt S"])
    (simp_all add: in_alt_def main_slot_def NativeScreen_ResetMode_step_def)

lemma in_alt_SetMode: "in_alt S w \<Longrightarrow> in_alt S (AlternateScreen_SetMode w ms p)"
proof -
  assume w: "in_alt S w"
  have "in_alt S (foldl AlternateScreen_SetMode_step w ms)"
    by (rule foldl_invariant[where P="in_alt S"])
      (simp_all add: w, simp add: in_alt_def main_slot_def AlternateScreen_SetMode_step_def)
  then show ?thesis using w by (simp add: AlternateScreen_SetMode_def in_alt_Native_SetMode)
qed

lemma in_alt_ResetMode_steps:
  "in_alt S w \<Longrightarrow> 1049 \<notin> set ms \<Longrightarrow> 1047 \<notin> set ms \<Longrightarrow> 47 \<notin> set ms
     \<Longrightarrow> in_alt S (foldl AlternateScreen_ResetMode_step w ms)"
proof (induction ms arbitrary: w)
  case Nil
  then show ?case by simp
next
  case (Cons m ms)
  have "in_alt S (AlternateScreen_ResetMode_step w m)"
    using Cons.prems by (simp add: in_alt_def main_slot_def AlternateScreen_ResetMode_step_def)
  then show ?case using Cons by simp
qed

lemma in_alt_ResetMode:
  assumes "in_alt S w" and "stays_alternate (ResetMode ms p)"
  shows "in_alt S (AlternateScreen_ResetMode w ms p)"
proof (cases p)
  case True
  then have "1049 \<notin> set ms" "1047 \<notin> set ms" "47 \<notin> set ms"
    using assms(2) by (simp_all add: stays_alternate_def)
  then show ?thesis
    using True assms(1) by (simp add: AlternateScreen_ResetMode_def in_alt_Native_ResetMode in_alt_ResetMode_steps)
next
  case False
  then show ?thesis using assms(1) by (simp add: AlternateScreen_ResetMode_def in_alt_Native_ResetMode)
qed

lemma in_alt_InsertLines: "in_alt S w \<Longrightarrow> in_alt S (NativeScreen_InsertLines w n)"
proof -
  assume w: "in_alt S w"
  have "in_alt S ((InsertLines_step ^^ nat n) w)"
    by (rule funpow_invariant[where P="in_alt S"])
      (simp_all add: w, simp add: in_alt_def main_slot_def InsertLines_step_def)
  then show ?thesis using w by (simp add: NativeScreen_InsertLines_def)
qed

lemma in_alt_DeleteLines: "in_alt S w \<Longrightarrow> in_alt S (NativeScreen_DeleteLines w n)"
proof -
  assume w: "in_alt S w"
  have "in_alt S ((DeleteLines_step ^^ nat n) w)"
    by (rule funpow_invariant[where P="in_alt S"])
      (simp_all add: w, simp add: in_alt_def main_slot_def DeleteLines_step_def Let_def)
  then show ?thesis using w by (simp add: NativeScreen_DeleteLines_def)
qed

lemma in_alt_clearCellAt: "in_alt S w \<Longrightarrow> in_alt S (clearCellAt w y x)"
  by (simp add: in_alt_def main_slot_def)

lemma in_alt_drawChar_place: "in_alt S w \<Longrightarrow> in_alt S (drawChar_place w ch cw)"
  by (simp add: in_alt_def main_slot_def drawChar_place_def Let_def)

lemma in_alt_drawChar: "in_alt S w \<Longrightarrow> in_alt S (drawChar rw w ch)"
  by (auto simp: drawChar_def handleZeroWidth_def Let_def intro!: in_alt_drawChar_place)
     (simp_all add: in_alt_def main_slot_def scrollUpNoHistory_def)

lemma in_alt_Draw: "in_alt S w \<Longrightarrow> in_alt S (WideCharScreen_Draw rw w str)"
proof -
  assume w: "in_alt S w"
  then have u: "usingAlternate w" by (simp add: in_alt_def)
  have "in_alt S (foldl (drawChar rw) w str)"
    by (rule foldl_invariant[where P="in_alt S"]) (simp_all add: w in_alt_drawChar)
  then show ?thesis using u by (simp add: WideCharScreen_Draw_def)
qed

lemma in_alt_CursorBack: "in_alt S w \<Longrightarrow> in_alt S (WideCharScreen_CursorBack w n)"
proof -
  assume w: "in_alt S w"
  have "in_alt S ((WideCharScreen_CursorBack_step ^^ nat n) w)"
    by (rule funpow_invariant[where P="in_alt S"])
      (simp_all add: w, simp add: in_alt_def main_slot_def WideCharScreen_CursorBack_step_def)
  then show ?thesis by (simp add: WideCharScreen_CursorBack_def Let_def in_alt_def main_slot_def)
qed

lemma in_alt_CursorForward: "in_alt S w \<Longrightarrow> in_alt S (WideCharScreen_CursorForward w n)"
proof -
  assume w: "in_alt S w"
  have "in_alt S ((WideCharScreen_CursorForward_step ^^ nat n) w)"
    by (rule funpow_invariant[where P="in_alt S"])
      (simp_all add: w, simp add: in_alt_def main_slot_def WideCharScreen_CursorForward_step_def)
  then show ?thesis by (simp add: WideCharScreen_CursorForward_def Let_def in_alt_def main_slot_def)
qed

lemma in_alt_EraseCharacters_loop: "in_alt S w \<Longrightarrow> in_alt S (EraseCharacters_loop k x w)"
  by (induction k arbitrary: x w) (simp_all add: Let_def in_alt_clearCellAt)

lemma in_alt_EraseCharacters: "in_alt S w \<Longrightarrow> in_alt S (WideCharScreen_EraseCharacters w n)"
  by (simp add: WideCharScreen_EraseCharacters_def in_alt_EraseCharacters_loop)

lemma in_alt_call:
  assumes "in_alt S w" and "stays_alternate p"
  shows "in_alt S (call rw w p)"
  using assms
  by (cases p)
    (simp_all add: in_alt_simple in_alt_Tab in_alt_RestoreCursor in_alt_Linefeed in_alt_Index
      in_alt_EraseInDisplay in_alt_SetMode in_alt_ResetMode in_alt_InsertLines in_alt_DeleteLines
      in_alt_Draw in_alt_CursorBack in_alt_CursorForward in_alt_EraseCharacters,
     simp add: stays_alternate_def)

lemma in_alt_run:
  assumes "in_alt S w" and "list_all stays_alternate ops"
  shows "in_alt S (run rw w ops)"
  using assms unfolding run_def
  by (induction ops arbitrary: w) (simp_all add: in_alt_call)

lemma enter_alternate:
  assumes "\<not> usingAlternate w" and "m = 1049 \<or> m = 1047 \<or> m = 47"
  shows "call rw w (SetMode [m] True) = AlternateScreen_switchToAlternate w"
  using assms
  by (auto simp: AlternateScreen_SetMode_def AlternateScreen_SetMode_step_def NativeScreen_SetMode_def
      NativeScreen_SetMode_step_def)

lemma exit_alternate:
  assumes "usingAlternate v" and "m = 1049 \<or> m = 1047 \<or> m = 47"
  shows "call rw v (ResetMode [m] True) = AlternateScreen_switchToMain v"
  using assms
  by (auto simp: AlternateScreen_ResetMode_def AlternateScreen_ResetMode_step_def NativeScreen_ResetMode_def
      NativeScreen_ResetMode_step_def)

text \<open>
  What the switch keeps: entering the alternate screen (\<^verbatim>\<open>SetMode\<close> of private mode
  1049, 1047 or 47) and leaving it (\<^verbatim>\<open>ResetMode\<close> of one of these modes) brings back
  the five fields that \<^verbatim>\<open>AlternateScreen.switchToAlternate\<close> stashes, whatever
  operations run in between, as long as they do not leave the alternate screen
  themselves (\<^verbatim>\<open>Reset\<close>, or a \<^verbatim>\<open>ResetMode\<close> of one of the three modes).
\<close>

lemma main_half_restored:
  assumes "\<not> usingAlternate w"
    and "m = 1049 \<or> m = 1047 \<or> m = 47" and "m' = 1049 \<or> m' = 1047 \<or> m' = 47"
    and "list_all stays_alternate ops"
  shows "IsUsingAlternate (run rw (call rw w (SetMode [m] True)) ops)
       \<and> buffer (call rw (run rw (call rw w (SetMode [m] True)) ops) (ResetMode [m'] True)) = buffer w
       \<and> attrs (call rw (run rw (call rw w (SetMode [m] True)) ops) (ResetMode [m'] True)) = attrs w
       \<and> cursor (call rw (run rw (call rw w (SetMode [m] True)) ops) (ResetMode [m'] True)) = cursor w
       \<and> tabStops (call rw (run rw (call rw w (SetMode [m] True)) ops) (ResetMode [m'] True)) = tabStops w
       \<and> history (call rw (run rw (call rw w (SetMode [m] True)) ops) (ResetMode [m'] True)) = history w
       \<and> GetHistorySize (call rw (run rw (call rw w (SetMode [m] True)) ops) (ResetMode [m'] True))
            = GetHistorySize w
       \<and> \<not> IsUsingAlternate (call rw (run rw (call rw w (SetMode [m] True)) ops) (ResetMode [m'] True))"
proof -
  define S where "S = (buffer w, attrs w, cursor w, tabStops w, history w)"
  define v where "v = run rw (call rw w (SetMode [m] True)) ops"
  have "in_alt S (AlternateScreen_switchToAlternate w)"
    by (simp add: in_alt_def main_slot_def S_def AlternateScreen_switchToAlternate_def Let_def)
  then have "in_alt S v"
    unfolding v_def enter_alternate[OF assms(1,2)] using assms(4) by (rule in_alt_run)
  then have v: "usingAlternate v" "mainBuffer v = buffer w" "mainAttrs v = attrs w"
    "mainCursor v = cursor w" "mainTabStops v = tabStops w" "mainHistory v = history w"
    by (simp_all add: in_alt_def main_slot_def S_def)
  show ?thesis
    unfolding v_def[symmetric] exit_alternate[OF v(1) assms(3)]
    using v by (simp add: AlternateScreen_switchToMain_def IsUsingAlternate_def GetHistorySize_def)
qed

lemma main_abc_fields:
  "buffer main_abc = [[97, 98, 99, 32], [32, 32, 32, 32]]"
  "cellWidths main_abc = [[1, 1, 1, 1], [1, 1, 1, 1]]"
  "altBuffer main_abc = [[32, 32, 32, 32], [32, 32, 32, 32]]"
  "GetCursor main_abc = (3, 0)"
  "\<not> usingAlternate main_abc" "\<not> viewingHistory main_abc" "autoWrap main_abc"
  "columns main_abc = 4" "lines main_abc = 2"
  by (simp_all add: main_abc_def eval_defs op_defs sample_width_def)

text \<open>
  C4. The claim is that leaving the alternate screen gives the main screen back
  exactly as it was at entry, whatever was drawn in between. The code does not do
  that on the wide-character screen. The five stashed fields come back, but the width
  grid \<^verbatim>\<open>cellWidths\<close> is one grid for both halves: the mode switch calls
  \<^verbatim>\<open>AlternateScreen.switchToAlternate\<close> and \<^verbatim>\<open>switchToMain\<close>, and the methods of
  \<^verbatim>\<open>WideCharScreen\<close> that would swap the widths are never called. With a, b, c on the
  main screen, one wide character drawn on the alternate screen leaves the widths
  2, 0, 1, 1 in row 0 after the exit. The buffer of the main screen is a, b, c and a
  space again, but cell 1 now counts as a continuation and \<^verbatim>\<open>GetDisplay\<close> shows the row
  as a, c and a space.
\<close>

theorem alternate_exit_widths:
  "\<not> IsUsingAlternate main_abc \<and> \<not> IsUsingAlternate main_abc_back
   \<and> buffer main_abc ! 0 = [97, 98, 99, 32]
   \<and> buffer main_abc_back = buffer main_abc
   \<and> GetCursor main_abc_back = GetCursor main_abc
   \<and> cellWidths main_abc ! 0 = [1, 1, 1, 1]
   \<and> cellWidths main_abc_back ! 0 = [2, 0, 1, 1]
   \<and> WideCharScreen_GetDisplay main_abc ! 0 = [97, 98, 99, 32]
   \<and> WideCharScreen_GetDisplay main_abc_back ! 0 = [97, 99, 32]"
proof -
  define s2 where "s2 = call sample_width main_abc (SetMode [1049] True)"
  define s3 where "s3 = call sample_width s2 (Draw [19990])"
  have last_op: "main_abc_back = call sample_width s3 (ResetMode [1049] True)"
    by (simp add: main_abc_back_def run_def s3_def s2_def)
  have e: "s2 = AlternateScreen_switchToAlternate main_abc"
    unfolding s2_def by (rule enter_alternate[OF main_abc_fields(5)]) simp
  have s2: "buffer s2 = [[32, 32, 32, 32], [32, 32, 32, 32]]" "mainBuffer s2 = buffer main_abc"
    "mainCursor s2 = cursor main_abc"
    "usingAlternate s2" "cellWidths s2 = cellWidths main_abc" "GetCursor s2 = (0, 0)"
    "columns s2 = 4" "lines s2 = 2" "autoWrap s2"
    unfolding e
    by (simp_all add: AlternateScreen_switchToAlternate_def Let_def main_abc_fields fill_rows_def
        fill_cells_def upt_conv_Cons set_cell_def list_update_Cons_numeral GetCursor_def Cursor_default_def)
  have s3: "usingAlternate s3" "mainBuffer s3 = buffer main_abc" "mainCursor s3 = cursor main_abc"
    "cellWidths s3 = [[2, 0, 1, 1], [1, 1, 1, 1]]" "columns s3 = 4" "lines s3 = 2"
    using s2(6) unfolding s3_def
    by (simp_all add: s2 main_abc_fields WideCharScreen_Draw_def drawChar_def drawChar_place_def Let_def
        sample_width_def GetCursor_def clearCellAt.simps set_cell_def get_cell_def list_update_Cons_numeral)
  have x: "main_abc_back = AlternateScreen_switchToMain s3"
    unfolding last_op by (rule exit_alternate[OF s3(1)]) simp
  show ?thesis
    unfolding x
    by (simp add: AlternateScreen_switchToMain_def s3 main_abc_fields WideCharScreen_GetDisplay_def
        IsUsingAlternate_def GetCursor_def get_cell_def upt_conv_Cons)
qed

section \<open>C5: scrolling up and back down\<close>

text \<open>
  C5. From a live state of the main screen (the alternate buffer is not active, the
  history is not being viewed) with at least \<open>n\<close> lines of history, \<open>n \<ge> 1\<close>,
  \<^verbatim>\<open>ScrollUp(n)\<close> followed by \<^verbatim>\<open>ScrollDown(n)\<close> restores the grid (characters and
  attributes), what \<^verbatim>\<open>GetDisplay\<close> shows, the cursor position and the drawing
  attributes; the cursor is not hidden and \<^verbatim>\<open>IsViewingHistory()\<close> is false.
\<close>

theorem ScrollUp_ScrollDown_roundtrip:
  assumes "wf_screen w" and "\<not> usingAlternate w" and "\<not> viewingHistory w"
    and "1 \<le> n" and "n \<le> GetHistorySize w"
  shows "buffer (AlternateScreen_ScrollDown (AlternateScreen_ScrollUp w n) n) = buffer w
       \<and> attrs (AlternateScreen_ScrollDown (AlternateScreen_ScrollUp w n) n) = attrs w
       \<and> WideCharScreen_GetDisplay (AlternateScreen_ScrollDown (AlternateScreen_ScrollUp w n) n)
            = WideCharScreen_GetDisplay w
       \<and> GetCursor (AlternateScreen_ScrollDown (AlternateScreen_ScrollUp w n) n) = GetCursor w
       \<and> Attrs (cursor (AlternateScreen_ScrollDown (AlternateScreen_ScrollUp w n) n)) = Attrs (cursor w)
       \<and> \<not> Hidden (cursor (AlternateScreen_ScrollDown (AlternateScreen_ScrollUp w n) n))
       \<and> \<not> IsViewingHistory (AlternateScreen_ScrollDown (AlternateScreen_ScrollUp w n) n)"
proof -
  have n: "n \<le> int (length (history w))" using assms(5) by (simp add: GetHistorySize_def)
  show ?thesis
    using assms(3)
    by (simp add: ScrollUp_ScrollDown_state[OF assms(1-4) n] GetCursor_def IsViewingHistory_def
        WideCharScreen_GetDisplay_def)
qed

theorem ScrollUp_ScrollDown_roundtrip_witness:
  "wf_screen demo_screen \<and> \<not> usingAlternate demo_screen \<and> \<not> viewingHistory demo_screen
   \<and> (1::int) \<le> 1 \<and> 1 \<le> GetHistorySize demo_screen
   \<and> buffer (AlternateScreen_ScrollDown (AlternateScreen_ScrollUp demo_screen 1) 1) = [[98, 32, 32], [99, 32, 32]]
   \<and> \<not> IsViewingHistory (AlternateScreen_ScrollDown (AlternateScreen_ScrollUp demo_screen 1) 1)"
proof -
  have h: "1 \<le> GetHistorySize demo_screen" by (simp add: GetHistorySize_def demo_screen_fields)
  show ?thesis
    using ScrollUp_ScrollDown_roundtrip[OF wf_demo_screen demo_screen_fields(3,4) _ h] h
    by (simp add: wf_demo_screen demo_screen_fields)
qed

section \<open>C6: scrolling down from the live view\<close>




section \<open>C10: scrolling up with nothing to scroll\<close>

text \<open>
  C10. When \<^verbatim>\<open>ScrollUp(n)\<close> is called on the main screen from the live view with
  \<open>n \<le> 0\<close> or with an empty history, the grid, what \<^verbatim>\<open>GetDisplay\<close> shows, the cursor
  position and the hidden flag stay as they are, and still the screen enters the
  viewing state: the live screen is saved and \<^verbatim>\<open>IsViewingHistory()\<close> is true.
\<close>

theorem ScrollUp_nothing_to_scroll:
  assumes "wf_screen w" and "\<not> usingAlternate w" and "\<not> viewingHistory w"
    and "n \<le> 0 \<or> history w = []"
  shows "buffer (AlternateScreen_ScrollUp w n) = buffer w
       \<and> attrs (AlternateScreen_ScrollUp w n) = attrs w
       \<and> WideCharScreen_GetDisplay (AlternateScreen_ScrollUp w n) = WideCharScreen_GetDisplay w
       \<and> GetCursor (AlternateScreen_ScrollUp w n) = GetCursor w
       \<and> Hidden (cursor (AlternateScreen_ScrollUp w n)) = Hidden (cursor w)
       \<and> IsViewingHistory (AlternateScreen_ScrollUp w n)
       \<and> savedBuffer (AlternateScreen_ScrollUp w n) = Some (buffer w)
       \<and> savedAttrs (AlternateScreen_ScrollUp w n) = Some (attrs w)
       \<and> savedCursor (AlternateScreen_ScrollUp w n) = cursor w"
proof -
  have pos: "historyPos w = 0" using assms(1,3) by (simp add: wf_screen_def)
  have "AlternateScreen_ScrollUp w n = (saveCurrentScreen w)\<lparr>viewingHistory := True\<rparr>"
    using assms(2-4) pos
    by (auto simp: AlternateScreen_ScrollUp_def HistoryScreen_ScrollUp_def Let_def saveCurrentScreen_def)
  then show ?thesis
    by (simp add: saveCurrentScreen_wf[OF assms(1)] GetCursor_def IsViewingHistory_def WideCharScreen_GetDisplay_def)
qed

theorem ScrollUp_nothing_to_scroll_witness:
  "wf_screen demo_screen \<and> \<not> usingAlternate demo_screen \<and> \<not> viewingHistory demo_screen
   \<and> (0::int) \<le> 0
   \<and> history demo_screen \<noteq> []
   \<and> IsViewingHistory (AlternateScreen_ScrollUp demo_screen 0)
   \<and> buffer (AlternateScreen_ScrollUp demo_screen 0) = [[98, 32, 32], [99, 32, 32]]
   \<and> GetCursor (AlternateScreen_ScrollUp demo_screen 0) = (1, 1)"
  using ScrollUp_nothing_to_scroll[OF wf_demo_screen demo_screen_fields(3,4), of 0]
  by (simp add: wf_demo_screen demo_screen_fields)

section \<open>C7: erasing the whole display\<close>

lemma set_cell_same_row:
  "nat y < length g \<Longrightarrow> set_cell (g[nat y := r]) y x v = g[nat y := r[nat x := v]]"
  by (simp add: set_cell_def)

lemma fold_set_cell_row:
  assumes "nat y < length g" and "n \<le> length (g ! nat y)"
  shows "fold (\<lambda>x h. set_cell h y (int x) v) [0..<n] g = g[nat y := replicate n v @ drop n (g ! nat y)]"
  using assms(2)
proof (induction n)
  case 0
  then show ?case by simp
next
  case (Suc n)
  then have n: "n < length (g ! nat y)" by simp
  have "(replicate n v @ drop n (g ! nat y))[n := v] = replicate (Suc n) v @ drop (Suc n) (g ! nat y)"
    using n by (simp add: list_update_append replicate_append_same upd_conv_take_nth_drop Cons_nth_drop_Suc)
  then show ?case using Suc assms(1) by (simp add: set_cell_same_row)
qed

lemma fill_cells_row:
  assumes "nat y < length g" and "0 \<le> c" and "length (g ! nat y) = nat c"
  shows "fill_cells g y 0 c v = g[nat y := replicate (nat c) v]"
  using fold_set_cell_row[OF assms(1), of "nat c" v] assms(3) by (simp add: fill_cells_def)

lemma fill_rows_all:
  assumes "grid_ok c l g" and "0 \<le> c"
  shows "fill_rows g 0 l c v = replicate (nat l) (replicate (nat c) v)"
proof -
  have len: "length g = nat l" and rows: "\<And>i. i < nat l \<Longrightarrow> length (g ! i) = nat c"
    using assms(1) by (auto simp: grid_ok_def)
  have "n \<le> nat l \<Longrightarrow>
        fold (\<lambda>y h. fill_cells h (int y) 0 c v) [0..<n] g = replicate n (replicate (nat c) v) @ drop n g" for n
  proof (induction n)
    case 0
    then show ?case by simp
  next
    case (Suc n)
    then have n: "n < nat l" by simp
    let ?h = "replicate n (replicate (nat c) v) @ drop n g"
    have hn: "nat (int n) < length ?h" using n len by simp
    have hrow: "length (?h ! nat (int n)) = nat c"
      using n len rows[of n] by (simp add: nth_append)
    have "fill_cells ?h (int n) 0 c v = ?h[n := replicate (nat c) v]"
      using fill_cells_row[OF hn assms(2) hrow, of v] by simp
    also have "\<dots> = replicate (Suc n) (replicate (nat c) v) @ drop (Suc n) g"
      using n len
      by (simp add: list_update_append replicate_append_same upd_conv_take_nth_drop Cons_nth_drop_Suc)
    finally show ?case using Suc by simp
  qed
  from this[of "nat l"] show ?thesis by (simp add: fill_rows_def len)
qed

text \<open>
  What the erase does with \<open>how\<close> 2 or 3: every cell of the buffer holds a space and
  the history is empty, but \<^verbatim>\<open>attrs\<close> is left as it was. \<^verbatim>\<open>NativeScreen.EraseInDisplay\<close>
  writes into \<^verbatim>\<open>buffer\<close> only.
\<close>

lemma EraseInDisplay_effect:
  assumes "wf_screen w" and "how = 2 \<or> how = 3"
  shows "buffer (HistoryScreen_EraseInDisplay w how) = replicate (nat (lines w)) (blank_chars (columns w))
       \<and> (\<not> viewingHistory w \<longrightarrow> attrs (HistoryScreen_EraseInDisplay w how) = attrs w)
       \<and> GetHistorySize (HistoryScreen_EraseInDisplay w how) = 0"
proof -
  define h1 where "h1 = (if viewingHistory w then HistoryScreen_ScrollToBottom w else w)"
  have h1: "wf_screen h1" using assms(1) by (simp add: h1_def wf_History_ScrollToBottom)
  have g: "columns h1 = columns w" "lines h1 = lines w"
    by (simp_all add: h1_def HistoryScreen_ScrollToBottom_def restoreCurrentScreen_def split: option.splits)
  have "buffer (HistoryScreen_EraseInDisplay w how) = fill_rows (buffer h1) 0 (lines h1) (columns h1) 32"
    using assms(2) by (auto simp: HistoryScreen_EraseInDisplay_def NativeScreen_EraseInDisplay_def Let_def h1_def)
  also have "\<dots> = replicate (nat (lines w)) (blank_chars (columns w))"
    using fill_rows_all[OF wfD(3)[OF h1], of 32] wfD(1)[OF h1] g by (simp add: blank_chars_def)
  finally have b: "buffer (HistoryScreen_EraseInDisplay w how) = replicate (nat (lines w)) (blank_chars (columns w))" .
  have a: "\<not> viewingHistory w \<longrightarrow> attrs (HistoryScreen_EraseInDisplay w how) = attrs w"
    using assms(2) by (auto simp: HistoryScreen_EraseInDisplay_def NativeScreen_EraseInDisplay_def Let_def)
  have s: "GetHistorySize (HistoryScreen_EraseInDisplay w how) = 0"
    using assms(2) by (auto simp: HistoryScreen_EraseInDisplay_def GetHistorySize_def Let_def)
  show ?thesis using b a s by simp
qed

text \<open>
  C7. The claim is that after \<^verbatim>\<open>EraseInDisplay\<close> with \<open>how\<close> 2 or 3 every cell of the
  visible grid is a space with default attributes. The code clears the characters and
  forgets the rest of the cell. A cell drawn in red is a space after the erase and
  still carries the red foreground. The width grid is not reset either: after two
  wide characters and the erase, the row of four spaces still has the widths
  2, 0, 2, 0, and \<^verbatim>\<open>GetDisplay\<close> shows two cells of it. The other ways of clearing a
  cell do reset its attributes (\<^verbatim>\<open>clearCellAt\<close>, \<^verbatim>\<open>Reset\<close>, the fresh rows of a
  scroll).
\<close>

theorem EraseInDisplay_stale_cells:
  "get_cell (buffer (run sample_width (NewWideCharScreen 4 2 10)
       [SelectGraphicRendition [31], Draw [65], EraseInDisplay 2])) 0 0 = 32
   \<and> Fg (get_cell (attrs (run sample_width (NewWideCharScreen 4 2 10)
       [SelectGraphicRendition [31], Draw [65], EraseInDisplay 2])) 0 0) = ''red''
   \<and> get_cell (attrs (run sample_width (NewWideCharScreen 4 2 10)
       [SelectGraphicRendition [31], Draw [65], EraseInDisplay 2])) 0 0 \<noteq> DefaultAttributes
   \<and> buffer (run sample_width (NewWideCharScreen 4 2 10) [Draw [19990, 19990], EraseInDisplay 2]) ! 0
        = [32, 32, 32, 32]
   \<and> cellWidths (run sample_width (NewWideCharScreen 4 2 10) [Draw [19990, 19990], EraseInDisplay 2]) ! 0
        = [2, 0, 2, 0]
   \<and> WideCharScreen_GetDisplay (run sample_width (NewWideCharScreen 4 2 10)
        [Draw [19990, 19990], EraseInDisplay 2]) ! 0 = [32, 32]"
  by (simp add: eval_defs op_defs sample_width_def NativeScreen_SelectGraphicRendition_def sgr_code_def
      HistoryScreen_EraseInDisplay_def NativeScreen_EraseInDisplay_def fill_rows_def fill_cells_def
      upt_conv_Cons DefaultAttributes_def Attributes_zero_def WideCharScreen_GetDisplay_def)

section \<open>C8: a wide character near the right edge\<close>

text \<open>
  C8 (as amended). On a wide-character screen of 4 columns and 2 lines with autowrap
  on, the text a, b, U+4E16 (width 2) fits into row 0: the wide character takes columns
  2 and 3, row 1 stays blank and the cursor rests at (x=4, y=0). The wrap happens when
  the pair does not fit: after a, b, c, U+4E16 row 0 is a, b, c and a blank, the wide
  character takes columns 0 and 1 of row 1 and the cursor is at (x=2, y=1).
\<close>

theorem wide_edge_amended:
  assumes "rw 97 = 1" and "rw 98 = 1" and "rw 99 = 1" and "rw 19990 = 2"
  shows "buffer (WideCharScreen_Draw rw (NewWideCharScreen 4 2 m) [97, 98, 19990])
           = [[97, 98, 19990, 0], [32, 32, 32, 32]]
       \<and> cellWidths (WideCharScreen_Draw rw (NewWideCharScreen 4 2 m) [97, 98, 19990])
           = [[1, 1, 2, 0], [1, 1, 1, 1]]
       \<and> GetCursor (WideCharScreen_Draw rw (NewWideCharScreen 4 2 m) [97, 98, 19990]) = (4, 0)
       \<and> buffer (WideCharScreen_Draw rw (NewWideCharScreen 4 2 m) [97, 98, 99, 19990])
           = [[97, 98, 99, 32], [19990, 0, 32, 32]]
       \<and> cellWidths (WideCharScreen_Draw rw (NewWideCharScreen 4 2 m) [97, 98, 99, 19990])
           = [[1, 1, 1, 1], [2, 0, 1, 1]]
       \<and> GetCursor (WideCharScreen_Draw rw (NewWideCharScreen 4 2 m) [97, 98, 99, 19990]) = (2, 1)"
  using assms by (simp add: eval_defs)

theorem wide_edge_amended_witness:
  "sample_width 97 = 1 \<and> sample_width 98 = 1 \<and> sample_width 99 = 1 \<and> sample_width 19990 = 2
   \<and> GetCursor (WideCharScreen_Draw sample_width (NewWideCharScreen 4 2 10) [97, 98, 99, 19990]) = (2, 1)"
proof -
  have w: "sample_width 97 = 1" "sample_width 98 = 1" "sample_width 99 = 1" "sample_width 19990 = 2"
    by (simp_all add: sample_width_def)
  from wide_edge_amended [OF w, of 10] w show ?thesis by simp
qed

text \<open>
  The claim as the specification states it fails: the cursor does not end at (2, 1) and
  row 1 does not start with the wide character.
\<close>

theorem wide_edge_counterexample:
  "sample_width 19990 = 2
   \<and> autoWrap (NewWideCharScreen 4 2 10)
   \<and> GetCursor (WideCharScreen_Draw sample_width (NewWideCharScreen 4 2 10) [97, 98, 19990]) \<noteq> (2, 1)
   \<and> get_cell (buffer (WideCharScreen_Draw sample_width (NewWideCharScreen 4 2 10) [97, 98, 19990])) 1 0
        \<noteq> 19990"
  by (simp add: eval_defs sample_width_def)

section \<open>C9: drawing past the end of the line with autowrap off\<close>












end
